theory Spec2Isabelle
  imports Complex_Main
begin

section \<open>Numbers of the program\<close>

text \<open>
  \<^verbatim>\<open>ellipse.py\<close> computes on numpy double-precision scalars. The development works in
  exact real arithmetic: a finite value is an exact real \<open>Fin r\<close>, so no operation
  rounds or overflows. What is kept of IEEE-754 is the three special values and the
  rules that produce and propagate them, since the program relies on them
  (\<^verbatim>\<open>numpy.inf\<close> is its "not an ellipse" marker and a division by zero is a warning,
  never an exception, on numpy scalars). Zero is unsigned: \<open>x / 0\<close> takes the sign
  of \<open>x\<close>.
\<close>

datatype fval = Fin real | PInf | NInf | NaN

instantiation fval :: "{zero, one, plus, minus, uminus, times, inverse}"
begin

definition zero_fval :: fval where
  "zero_fval = Fin 0"

definition one_fval :: fval where
  "one_fval = Fin 1"

fun uminus_fval :: "fval \<Rightarrow> fval" where
  "uminus_fval (Fin a) = Fin (- a)"
| "uminus_fval PInf = NInf"
| "uminus_fval NInf = PInf"
| "uminus_fval NaN = NaN"

fun plus_fval :: "fval \<Rightarrow> fval \<Rightarrow> fval" where
  "plus_fval (Fin a) (Fin b) = Fin (a + b)"
| "plus_fval NaN _ = NaN"
| "plus_fval _ NaN = NaN"
| "plus_fval PInf NInf = NaN"
| "plus_fval NInf PInf = NaN"
| "plus_fval PInf _ = PInf"
| "plus_fval _ PInf = PInf"
| "plus_fval NInf _ = NInf"
| "plus_fval _ NInf = NInf"

definition minus_fval :: "fval \<Rightarrow> fval \<Rightarrow> fval" where
  "minus_fval u v = u + (- v)"

fun times_fval :: "fval \<Rightarrow> fval \<Rightarrow> fval" where
  "times_fval (Fin a) (Fin b) = Fin (a * b)"
| "times_fval NaN _ = NaN"
| "times_fval _ NaN = NaN"
| "times_fval PInf (Fin b) = (if b = 0 then NaN else if 0 < b then PInf else NInf)"
| "times_fval NInf (Fin b) = (if b = 0 then NaN else if 0 < b then NInf else PInf)"
| "times_fval (Fin a) PInf = (if a = 0 then NaN else if 0 < a then PInf else NInf)"
| "times_fval (Fin a) NInf = (if a = 0 then NaN else if 0 < a then NInf else PInf)"
| "times_fval PInf PInf = PInf"
| "times_fval PInf NInf = NInf"
| "times_fval NInf PInf = NInf"
| "times_fval NInf NInf = PInf"

fun divide_fval :: "fval \<Rightarrow> fval \<Rightarrow> fval" where
  "divide_fval (Fin a) (Fin b) =
     (if b = 0 then (if a = 0 then NaN else if 0 < a then PInf else NInf)
      else Fin (a / b))"
| "divide_fval NaN _ = NaN"
| "divide_fval _ NaN = NaN"
| "divide_fval (Fin a) PInf = Fin 0"
| "divide_fval (Fin a) NInf = Fin 0"
| "divide_fval PInf (Fin b) = (if 0 \<le> b then PInf else NInf)"
| "divide_fval NInf (Fin b) = (if 0 \<le> b then NInf else PInf)"
| "divide_fval PInf PInf = NaN"
| "divide_fval PInf NInf = NaN"
| "divide_fval NInf PInf = NaN"
| "divide_fval NInf NInf = NaN"

definition inverse_fval :: "fval \<Rightarrow> fval" where
  "inverse_fval v = divide (Fin 1) v"

instance ..

end

text \<open>The comparisons \<^verbatim>\<open>u < v\<close> and \<^verbatim>\<open>u > v\<close>: false as soon as one side is NaN.\<close>

fun fv_lt :: "fval \<Rightarrow> fval \<Rightarrow> bool" where
  "fv_lt (Fin a) (Fin b) = (a < b)"
| "fv_lt NaN _ = False"
| "fv_lt _ NaN = False"
| "fv_lt NInf NInf = False"
| "fv_lt NInf _ = True"
| "fv_lt PInf _ = False"
| "fv_lt (Fin a) PInf = True"
| "fv_lt (Fin a) NInf = False"


text \<open>\<^verbatim>\<open>v**2\<close>.\<close>

definition pow2 :: "fval \<Rightarrow> fval" where
  "pow2 v = v * v"

text \<open>
  The numpy functions the module calls, on the same values: \<^verbatim>\<open>numpy.sqrt\<close> of a
  negative number is NaN (a warning), \<^verbatim>\<open>numpy.cos\<close> and \<^verbatim>\<open>numpy.sin\<close> of an
  infinity are NaN, \<^verbatim>\<open>numpy.isinf\<close> holds of both infinities and not of NaN.
\<close>

fun numpy_sqrt :: "fval \<Rightarrow> fval" where
  "numpy_sqrt (Fin a) = (if a < 0 then NaN else Fin (sqrt a))"
| "numpy_sqrt PInf = PInf"
| "numpy_sqrt NInf = NaN"
| "numpy_sqrt NaN = NaN"

fun numpy_cos :: "fval \<Rightarrow> fval" where
  "numpy_cos (Fin a) = Fin (cos a)"
| "numpy_cos _ = NaN"

fun numpy_sin :: "fval \<Rightarrow> fval" where
  "numpy_sin (Fin a) = Fin (sin a)"
| "numpy_sin _ = NaN"

fun numpy_isinf :: "fval \<Rightarrow> bool" where
  "numpy_isinf PInf = True"
| "numpy_isinf NInf = True"
| "numpy_isinf _ = False"

definition numpy_inf :: fval where
  "numpy_inf = PInf"

definition numpy_pi :: fval where
  "numpy_pi = Fin pi"

text \<open>
  \<^verbatim>\<open>numpy.arctan2(y, x)\<close>: the angle of the point \<open>(x, y)\<close> in \<open>(-pi, pi]\<close>, with the
  values C's \<^verbatim>\<open>atan2\<close> gives at the origin and at the infinities when every zero is
  \<open>+0\<close>. This is the call of \<open>gparams_from_conic\<close>: its second argument \<^verbatim>\<open>V[1, 1]\<close>
  is never negative and its zero is the \<open>+0\<close> of a cancelled sum, and there a zero
  first argument of either sign gives a zero.
\<close>

fun numpy_arctan2 :: "fval \<Rightarrow> fval \<Rightarrow> fval" where
  "numpy_arctan2 (Fin y) (Fin x) =
     Fin (if 0 < x then arctan (y / x)
          else if x < 0 then (if 0 \<le> y then arctan (y / x) + pi else arctan (y / x) - pi)
          else if 0 < y then pi / 2
          else if y < 0 then - (pi / 2)
          else 0)"
| "numpy_arctan2 NaN _ = NaN"
| "numpy_arctan2 _ NaN = NaN"
| "numpy_arctan2 (Fin y) PInf = Fin 0"
| "numpy_arctan2 (Fin y) NInf = Fin (if 0 \<le> y then pi else - pi)"
| "numpy_arctan2 PInf (Fin x) = Fin (pi / 2)"
| "numpy_arctan2 NInf (Fin x) = Fin (- (pi / 2))"
| "numpy_arctan2 PInf PInf = Fin (pi / 4)"
| "numpy_arctan2 PInf NInf = Fin (3 * pi / 4)"
| "numpy_arctan2 NInf PInf = Fin (- (pi / 4))"
| "numpy_arctan2 NInf NInf = Fin (- (3 * pi / 4))"

text \<open>
  \<^verbatim>\<open>numpy.arctan2(y, -v)\<close>, the call of the moment path, where the sign of a zero
  decides the result and the values here do not carry it. A zero \<open>v\<close> is the \<open>+0\<close> of a
  cancelled difference, so the second argument is \<open>-0\<close>; then, and on any negative
  second argument, a zero \<open>y\<close> gives \<open>pi\<close> or \<open>-pi\<close> by the sign of that zero. The
  function returns the set of the results the program can give: both angles in that
  case, one angle in every other.
\<close>

fun numpy_arctan2_negated :: "fval \<Rightarrow> fval \<Rightarrow> fval set" where
  "numpy_arctan2_negated (Fin y) (Fin v) =
     (if y = 0 \<and> 0 \<le> v then {Fin pi, Fin (- pi)}
      else {numpy_arctan2 (Fin y) (Fin (- v))})"
| "numpy_arctan2_negated (Fin y) PInf =
     (if y = 0 then {Fin pi, Fin (- pi)} else {numpy_arctan2 (Fin y) NInf})"
| "numpy_arctan2_negated y v = {numpy_arctan2 y (- v)}"

section \<open>The three parameter tuples\<close>

type_synonym gparams = "fval \<times> fval \<times> fval \<times> fval \<times> fval"
type_synonym conic = "fval \<times> fval \<times> fval \<times> fval \<times> fval \<times> fval"
type_synonym moments = "fval \<times> fval \<times> fval \<times> fval \<times> fval \<times> fval"

text \<open>A tuple of exact reals, as the program receives it.\<close>

definition fin5 :: "real \<times> real \<times> real \<times> real \<times> real \<Rightarrow> gparams" where
  "fin5 t = (case t of (x0, y0, a, b, theta) \<Rightarrow> (Fin x0, Fin y0, Fin a, Fin b, Fin theta))"

definition fin6 :: "real \<times> real \<times> real \<times> real \<times> real \<times> real \<Rightarrow> conic" where
  "fin6 t = (case t of (A, B, C, D, E, F) \<Rightarrow> (Fin A, Fin B, Fin C, Fin D, Fin E, Fin F))"

section \<open>Conic scale and the conic of geometric parameters\<close>

definition conic_scale :: "conic \<Rightarrow> fval \<times> fval" where
  "conic_scale conic =
     (case conic of (A, B, C, D, E, F) \<Rightarrow>
        let T = Fin 4 * A * C - B * B in
        if fv_lt T (Fin 0) then (numpy_inf, numpy_inf)
        else
          let S = A * pow2 E + pow2 B * F + C * pow2 D - B * D * E - Fin 4 * A * C * F in
          if S = Fin 0 then (numpy_inf, numpy_inf)
          else
            let k = Fin 0.25 * pow2 T / S;
                ab = Fin 2 * S / (T * numpy_sqrt T)
            in (k, ab))"

definition conic_from_gparams :: "gparams \<Rightarrow> conic" where
  "conic_from_gparams gparams =
     (case gparams of (x0, y0, a, b, theta) \<Rightarrow>
        let c = numpy_cos theta;
            s = numpy_sin theta;
            A = pow2 a * pow2 s + pow2 b * pow2 c;
            B = Fin 2 * (pow2 b - pow2 a) * s * c;
            C = pow2 a * pow2 c + pow2 b * pow2 s;
            D = Fin (- 2) * A * x0 - B * y0;
            E = - B * x0 - Fin 2 * C * y0;
            F = A * pow2 x0 + B * x0 * y0 + C * pow2 y0 - pow2 a * pow2 b
        in (A, B, C, D, E, F))"

section \<open>The symmetric 2x2 eigensolver\<close>

text \<open>
  The result is the pair \<open>(w, V)\<close>: \<open>w = (w0, w1)\<close> and \<open>V\<close> given by its rows,
  \<open>((V[0,0], V[0,1]), (V[1,0], V[1,1]))\<close>, so that the columns are the vectors.
\<close>

type_synonym mat2 = "(fval \<times> fval) \<times> (fval \<times> fval)"

definition eigh_2x2 :: "fval \<Rightarrow> fval \<Rightarrow> fval \<Rightarrow> (fval \<times> fval) \<times> mat2" where
  "eigh_2x2 x y z =
     (let q = numpy_sqrt (pow2 z - Fin 2 * x * z + Fin 4 * pow2 y + pow2 x);
          w = (Fin 0.5 * (z + x - q), Fin 0.5 * (z + x + q));
          V = ((Fin 2 * y, Fin 2 * y), (z - x - q, z - x + q))
      in (w, V))"

section \<open>From conics and moments to geometric parameters\<close>

text \<open>
  \<^verbatim>\<open>None\<close> is the sentinel of the source. Nothing in these functions raises on a
  six-tuple of numpy scalars, so the result type has no error branch.
\<close>

definition gparams_from_conic :: "conic \<Rightarrow> gparams option" where
  "gparams_from_conic conic =
     (case conic_scale conic of (k, ab) \<Rightarrow>
        if numpy_isinf ab then None
        else
          (case conic of (A, B, C, D, E, uu) \<Rightarrow>
             let x0 = (B * E - Fin 2 * C * D) / (Fin 4 * A * C - pow2 B);
                 y0 = (Fin (- 2) * A * E + B * D) / (Fin 4 * A * C - pow2 B)
             in (case eigh_2x2 A (Fin 0.5 * B) C of (w, V) \<Rightarrow>
                   let b = numpy_sqrt (fst w / k);
                       a = numpy_sqrt (snd w / k);
                       theta = numpy_arctan2 (- snd (fst V)) (snd (snd V))
                   in Some (x0, y0, a, b, theta))))"

text \<open>
  \<open>gparams_from_moments\<close> gives the set of the arrays the program can return: one
  array, or two that differ in the sign of the angle where \<^verbatim>\<open>numpy.arctan2\<close> is
  called on a zero \<^verbatim>\<open>V[0, 0]\<close> (see \<open>numpy_arctan2_negated\<close>).
\<close>

definition gparams_from_moments :: "moments \<Rightarrow> gparams set" where
  "gparams_from_moments m =
     (case m of (m00, m10, m01, mu20, mu11, mu02) \<Rightarrow>
        let x0 = m10 / m00;
            y0 = m01 / m00
        in (case eigh_2x2 (mu20 / m00) (mu11 / m00) (mu02 / m00) of (w, V) \<Rightarrow>
              let b = Fin 2 * numpy_sqrt (fst w);
                  a = Fin 2 * numpy_sqrt (snd w)
              in (\<lambda>theta. (x0, y0, a, b, theta)) `
                   numpy_arctan2_negated (fst (fst V)) (fst (snd V))))"

section \<open>Conics from moments, moments from geometric parameters and conics\<close>

definition conic_from_moments :: "moments \<Rightarrow> conic" where
  "conic_from_moments moments =
     (case moments of (m00, m10, m01, mu20, mu11, mu02) \<Rightarrow>
        let x0 = m10 / m00;
            y0 = m01 / m00;
            A = Fin 4 * mu02 / m00;
            B = Fin (- 8) * mu11 / m00;
            C = Fin 4 * mu20 / m00;
            a2b2 = Fin 0.25 * (Fin 4 * A * C - B * B);
            D = Fin (- 2) * A * x0 - B * y0;
            E = - B * x0 - Fin 2 * C * y0;
            F = A * pow2 x0 + B * x0 * y0 + C * pow2 y0 - a2b2
        in (A, B, C, D, E, F))"

definition moments_from_gparams :: "gparams \<Rightarrow> moments" where
  "moments_from_gparams gparams =
     (case gparams of (x0, y0, a, b, theta) \<Rightarrow>
        let c = numpy_cos theta;
            s = numpy_sin theta;
            m00 = a * b * numpy_pi;
            m10 = x0 * m00;
            m01 = y0 * m00;
            mu20 = (pow2 a * pow2 c + pow2 b * pow2 s) * m00 * Fin 0.25;
            mu11 = - (pow2 b - pow2 a) * s * c * m00 * Fin 0.25;
            mu02 = (pow2 a * pow2 s + pow2 b * pow2 c) * m00 * Fin 0.25
        in (m00, m10, m01, mu20, mu11, mu02))"

definition moments_from_conic :: "conic \<Rightarrow> moments option" where
  "moments_from_conic scaled_conic =
     (case conic_scale scaled_conic of (k, ab) \<Rightarrow>
        if numpy_isinf ab then None
        else
          (case scaled_conic of (A0, B0, C0, D0, E0, F0) \<Rightarrow>
             (case (A0 / k, B0 / k, C0 / k, D0 / k, E0 / k, F0 / k) of (A, B, C, D, E, uu) \<Rightarrow>
                let x0 = (B * E - Fin 2 * C * D) / (Fin 4 * A * C - pow2 B);
                    y0 = (Fin (- 2) * A * E + B * D) / (Fin 4 * A * C - pow2 B);
                    m00 = numpy_pi * ab;
                    m10 = x0 * m00;
                    m01 = y0 * m00;
                    mu20 = Fin 0.25 * C * m00;
                    mu11 = Fin (- 0.125) * B * m00;
                    mu02 = Fin 0.25 * A * m00
                in Some (m00, m10, m01, mu20, mu11, mu02))))"

section \<open>The conic conversions on the range of binary64\<close>

text \<open>
  A double has a range and the exact reals have none. For what is not said of exact
  arithmetic, the conversions that test for the sentinel are also written on values
  with the range of binary64: after every operation a finite result of magnitude at
  least \<open>2 ^ 1024 - 2 ^ 970\<close> is an infinity (overflow under round-to-nearest) and
  one of magnitude at most \<open>1 / 2 ^ 1075\<close> is zero (underflow). The rounding of the
  significand is left out and zero stays unsigned, so on operands and results that
  binary64 holds exactly each operation is the program's. The bodies are those of
  \<open>conic_scale\<close>, \<open>eigh_2x2\<close>, \<open>gparams_from_conic\<close> and \<open>moments_from_conic\<close>,
  operation for operation.
\<close>

definition double_range :: "fval \<Rightarrow> fval" where
  "double_range v =
     (case v of
        Fin r \<Rightarrow>
          if 2 ^ 1024 - 2 ^ 970 \<le> \<bar>r\<bar> then (if 0 < r then PInf else NInf)
          else if \<bar>r\<bar> \<le> 1 / 2 ^ 1075 then Fin 0
          else Fin r
      | PInf \<Rightarrow> PInf
      | NInf \<Rightarrow> NInf
      | NaN \<Rightarrow> NaN)"

datatype double = Double fval

instantiation double :: "{plus, minus, uminus, times, inverse}"
begin

fun uminus_double :: "double \<Rightarrow> double" where
  "uminus_double (Double u) = Double (- u)"

fun plus_double :: "double \<Rightarrow> double \<Rightarrow> double" where
  "plus_double (Double u) (Double v) = Double (double_range (u + v))"

fun minus_double :: "double \<Rightarrow> double \<Rightarrow> double" where
  "minus_double (Double u) (Double v) = Double (double_range (u - v))"

fun times_double :: "double \<Rightarrow> double \<Rightarrow> double" where
  "times_double (Double u) (Double v) = Double (double_range (u * v))"

fun divide_double :: "double \<Rightarrow> double \<Rightarrow> double" where
  "divide_double (Double u) (Double v) = Double (double_range (u / v))"

definition inverse_double :: "double \<Rightarrow> double" where
  "inverse_double v = divide (Double (Fin 1)) v"

instance ..

end

text \<open>A literal or an input of the program, and the numpy functions, on these values.\<close>

definition double_of :: "real \<Rightarrow> double" where
  "double_of r = Double (double_range (Fin r))"

fun double_lt :: "double \<Rightarrow> double \<Rightarrow> bool" where
  "double_lt (Double u) (Double v) = fv_lt u v"

definition double_pow2 :: "double \<Rightarrow> double" where
  "double_pow2 v = v * v"

fun double_sqrt :: "double \<Rightarrow> double" where
  "double_sqrt (Double u) = Double (double_range (numpy_sqrt u))"

fun double_isinf :: "double \<Rightarrow> bool" where
  "double_isinf (Double u) = numpy_isinf u"

fun double_arctan2 :: "double \<Rightarrow> double \<Rightarrow> double" where
  "double_arctan2 (Double y) (Double x) = Double (double_range (numpy_arctan2 y x))"

definition double_inf :: double where
  "double_inf = Double PInf"

definition double_pi :: double where
  "double_pi = double_of pi"

type_synonym double_conic = "double \<times> double \<times> double \<times> double \<times> double \<times> double"
type_synonym double_gparams = "double \<times> double \<times> double \<times> double \<times> double"
type_synonym double_moments = "double \<times> double \<times> double \<times> double \<times> double \<times> double"

definition double6 :: "real \<times> real \<times> real \<times> real \<times> real \<times> real \<Rightarrow> double_conic" where
  "double6 t =
     (case t of (A, B, C, D, E, F) \<Rightarrow>
        (double_of A, double_of B, double_of C, double_of D, double_of E, double_of F))"

definition conic_scale_double :: "double_conic \<Rightarrow> double \<times> double" where
  "conic_scale_double conic =
     (case conic of (A, B, C, D, E, F) \<Rightarrow>
        let T = double_of 4 * A * C - B * B in
        if double_lt T (double_of 0) then (double_inf, double_inf)
        else
          let S = A * double_pow2 E + double_pow2 B * F + C * double_pow2 D - B * D * E
                  - double_of 4 * A * C * F in
          if S = double_of 0 then (double_inf, double_inf)
          else
            let k = double_of 0.25 * double_pow2 T / S;
                ab = double_of 2 * S / (T * double_sqrt T)
            in (k, ab))"

definition eigh_2x2_double ::
    "double \<Rightarrow> double \<Rightarrow> double
      \<Rightarrow> (double \<times> double) \<times> ((double \<times> double) \<times> (double \<times> double))" where
  "eigh_2x2_double x y z =
     (let q = double_sqrt (double_pow2 z - double_of 2 * x * z + double_of 4 * double_pow2 y
                + double_pow2 x);
          w = (double_of 0.5 * (z + x - q), double_of 0.5 * (z + x + q));
          V = ((double_of 2 * y, double_of 2 * y), (z - x - q, z - x + q))
      in (w, V))"

definition gparams_from_conic_double :: "double_conic \<Rightarrow> double_gparams option" where
  "gparams_from_conic_double conic =
     (case conic_scale_double conic of (k, ab) \<Rightarrow>
        if double_isinf ab then None
        else
          (case conic of (A, B, C, D, E, uu) \<Rightarrow>
             let x0 = (B * E - double_of 2 * C * D) / (double_of 4 * A * C - double_pow2 B);
                 y0 = (double_of (- 2) * A * E + B * D) / (double_of 4 * A * C - double_pow2 B)
             in (case eigh_2x2_double A (double_of 0.5 * B) C of (w, V) \<Rightarrow>
                   let b = double_sqrt (fst w / k);
                       a = double_sqrt (snd w / k);
                       theta = double_arctan2 (- snd (fst V)) (snd (snd V))
                   in Some (x0, y0, a, b, theta))))"

definition moments_from_conic_double :: "double_conic \<Rightarrow> double_moments option" where
  "moments_from_conic_double scaled_conic =
     (case conic_scale_double scaled_conic of (k, ab) \<Rightarrow>
        if double_isinf ab then None
        else
          (case scaled_conic of (A0, B0, C0, D0, E0, F0) \<Rightarrow>
             (case (A0 / k, B0 / k, C0 / k, D0 / k, E0 / k, F0 / k) of (A, B, C, D, E, uu) \<Rightarrow>
                let x0 = (B * E - double_of 2 * C * D) / (double_of 4 * A * C - double_pow2 B);
                    y0 = (double_of (- 2) * A * E + B * D) / (double_of 4 * A * C - double_pow2 B);
                    m00 = double_pi * ab;
                    m10 = x0 * m00;
                    m01 = y0 * m00;
                    mu20 = double_of 0.25 * C * m00;
                    mu11 = double_of (- 0.125) * B * m00;
                    mu02 = double_of 0.25 * A * m00
                in Some (m00, m10, m01, mu20, mu11, mu02))))"

section \<open>Transforming a conic through a homography\<close>

datatype py_error = IndexError | LinAlgError

type_synonym 'a mat3 = "('a \<times> 'a \<times> 'a) \<times> ('a \<times> 'a \<times> 'a) \<times> ('a \<times> 'a \<times> 'a)"

text \<open>
  \<^verbatim>\<open>numpy.dot\<close> of two 3x3 arrays and \<^verbatim>\<open>.T\<close>, the arrays given by their rows. The
  product is written for any entries with \<open>+\<close> and \<open>*\<close>: the program runs it on
  \<open>fval\<close>, the properties also speak of it on \<open>real\<close>.
\<close>

fun numpy_dot :: "('a :: {plus, times}) mat3 \<Rightarrow> 'a mat3 \<Rightarrow> 'a mat3" where
  "numpy_dot ((a00, a01, a02), (a10, a11, a12), (a20, a21, a22))
             ((b00, b01, b02), (b10, b11, b12), (b20, b21, b22)) =
     ((a00 * b00 + a01 * b10 + a02 * b20,
       a00 * b01 + a01 * b11 + a02 * b21,
       a00 * b02 + a01 * b12 + a02 * b22),
      (a10 * b00 + a11 * b10 + a12 * b20,
       a10 * b01 + a11 * b11 + a12 * b21,
       a10 * b02 + a11 * b12 + a12 * b22),
      (a20 * b00 + a21 * b10 + a22 * b20,
       a20 * b01 + a21 * b11 + a22 * b21,
       a20 * b02 + a21 * b12 + a22 * b22))"

fun transpose3 :: "'a mat3 \<Rightarrow> 'a mat3" where
  "transpose3 ((a00, a01, a02), (a10, a11, a12), (a20, a21, a22)) =
     ((a00, a10, a20), (a01, a11, a21), (a02, a12, a22))"

text \<open>
  \<^verbatim>\<open>numpy.linalg.inv\<close> is a library routine. It is taken on a matrix of finite reals,
  where it is the exact inverse (the adjugate over the determinant) and raises
  \<^verbatim>\<open>LinAlgError\<close> on a singular matrix.
\<close>

fun det3 :: "real mat3 \<Rightarrow> real" where
  "det3 ((a, b, c), (d, e, f), (g, h, i)) =
     a * (e * i - f * h) - b * (d * i - f * g) + c * (d * h - e * g)"

fun adjugate3 :: "real mat3 \<Rightarrow> real mat3" where
  "adjugate3 ((a, b, c), (d, e, f), (g, h, i)) =
     ((e * i - f * h, c * h - b * i, b * f - c * e),
      (f * g - d * i, a * i - c * g, c * d - a * f),
      (d * h - e * g, b * g - a * h, a * e - b * d))"

fun scale3 :: "real \<Rightarrow> real mat3 \<Rightarrow> real mat3" where
  "scale3 r ((a, b, c), (d, e, f), (g, h, i)) =
     ((r * a, r * b, r * c), (r * d, r * e, r * f), (r * g, r * h, r * i))"

definition numpy_linalg_inv :: "real mat3 \<Rightarrow> py_error + real mat3" where
  "numpy_linalg_inv H =
     (if det3 H = 0 then Inl LinAlgError else Inr (scale3 (1 / det3 H) (adjugate3 H)))"

fun fin_mat3 :: "real mat3 \<Rightarrow> fval mat3" where
  "fin_mat3 ((a, b, c), (d, e, f), (g, h, i)) =
     ((Fin a, Fin b, Fin c), (Fin d, Fin e, Fin f), (Fin g, Fin h, Fin i))"

definition conic_transform :: "conic \<Rightarrow> real mat3 \<Rightarrow> py_error + conic" where
  "conic_transform conic H =
     (case conic of (A, B, C, D, E, F) \<Rightarrow>
        let M = ((A, Fin 0.5 * B, Fin 0.5 * D),
                 (Fin 0.5 * B, C, Fin 0.5 * E),
                 (Fin 0.5 * D, Fin 0.5 * E, F))
        in (case numpy_linalg_inv H of
              Inl err \<Rightarrow> Inl err
            | Inr Hinv_real \<Rightarrow>
                let Hinv = fin_mat3 Hinv_real in
                (case numpy_dot (transpose3 Hinv) (numpy_dot M Hinv) of
                   ((M00, M01, M02), (M10, M11, M12), (M20, M21, M22)) \<Rightarrow>
                     Inr (M00, M01 * Fin 2, M11, M02 * Fin 2, M12 * Fin 2, M22))))"

text \<open>
  A point through \<^verbatim>\<open>_perspective_transform\<close>: the row \<open>(x, y, 1)\<close> times \<^verbatim>\<open>H.T\<close>,
  then the first two entries over the third.
\<close>

fun perspective_transform_point :: "real mat3 \<Rightarrow> fval \<times> fval \<Rightarrow> fval \<times> fval" where
  "perspective_transform_point ((h00, h01, h02), (h10, h11, h12), (h20, h21, h22)) (x, y) =
     (let p0 = x * Fin h00 + y * Fin h01 + Fin 1 * Fin h02;
          p1 = x * Fin h10 + y * Fin h11 + Fin 1 * Fin h12;
          p2 = x * Fin h20 + y * Fin h21 + Fin 1 * Fin h22
      in (p0 / p2, p1 / p2))"

definition perspective_transform :: "(fval \<times> fval) list \<Rightarrow> real mat3 \<Rightarrow> (fval \<times> fval) list" where
  "perspective_transform pts H = map (perspective_transform_point H) pts"

text \<open>
  The implicit equation of the module's header, \<open>AX\<^sup>2 + BXY + CY\<^sup>2 + DX + EY + F\<close>, as
  the test evaluates it (the row \<open>(x\<^sup>2, xy, y\<^sup>2, x, y, 1)\<close> dotted with the conic).
\<close>

definition conic_implicit :: "conic \<Rightarrow> fval \<times> fval \<Rightarrow> fval" where
  "conic_implicit conic p =
     (case conic of (A, B, C, D, E, F) \<Rightarrow> case p of (x, y) \<Rightarrow>
        pow2 x * A + x * y * B + pow2 y * C + x * D + y * E + Fin 1 * F)"

section \<open>Moments of a closed polygon\<close>







section \<open>Vocabulary of the properties\<close>

text \<open>Two angles are congruent modulo \<open>pi\<close> when the sine of their difference vanishes.\<close>

definition cong_mod_pi :: "real \<Rightarrow> real \<Rightarrow> bool" where
  "cong_mod_pi s t = (sin (s - t) = 0)"

text \<open>
  The two invariants of a conic that the properties speak of: the discriminant
  \<open>T = 4AC - B\<^sup>2\<close> and \<open>S = AE\<^sup>2 + B\<^sup>2F + CD\<^sup>2 - BDE - 4ACF\<close>, on real coefficients.
\<close>

definition conic_T :: "real \<times> real \<times> real \<times> real \<times> real \<times> real \<Rightarrow> real" where
  "conic_T c = (case c of (A, B, C, D, E, F) \<Rightarrow> 4 * A * C - B\<^sup>2)"

definition conic_S :: "real \<times> real \<times> real \<times> real \<times> real \<times> real \<Rightarrow> real" where
  "conic_S c =
     (case c of (A, B, C, D, E, F) \<Rightarrow>
        A * E\<^sup>2 + B\<^sup>2 * F + C * D\<^sup>2 - B * D * E - 4 * A * C * F)"

text \<open>The conic \<open>k * c\<close>, every coefficient multiplied by \<open>k\<close>.\<close>

definition conic_times :: "real \<Rightarrow> real \<times> real \<times> real \<times> real \<times> real \<times> real
    \<Rightarrow> real \<times> real \<times> real \<times> real \<times> real \<times> real" where
  "conic_times k c = (case c of (A, B, C, D, E, F) \<Rightarrow> (k * A, k * B, k * C, k * D, k * E, k * F))"

text \<open>
  The words of the transform property on real matrices: the symmetric matrix of a conic
  (off-diagonals halved), the coefficients of a matrix (off-diagonals doubled), what it
  is to be the inverse of \<open>H\<close>, the product \<open>H\<^sup>-\<^sup>T M H\<^sup>-\<^sup>1\<close> for a given inverse, and
  the implicit equation \<open>Ax\<^sup>2 + Bxy + Cy\<^sup>2 + Dx + Ey + F\<close> at a real point.
\<close>

definition conic_matrix :: "real \<times> real \<times> real \<times> real \<times> real \<times> real \<Rightarrow> real mat3" where
  "conic_matrix c =
     (case c of (A, B, C, D, E, F) \<Rightarrow>
        ((A, B / 2, D / 2), (B / 2, C, E / 2), (D / 2, E / 2, F)))"

fun matrix_conic :: "real mat3 \<Rightarrow> real \<times> real \<times> real \<times> real \<times> real \<times> real" where
  "matrix_conic ((m00, m01, m02), (m10, m11, m12), (m20, m21, m22)) =
     (m00, 2 * m01, m11, 2 * m02, 2 * m12, m22)"

definition id3 :: "real mat3" where
  "id3 = ((1, 0, 0), (0, 1, 0), (0, 0, 1))"

definition is_inverse3 :: "real mat3 \<Rightarrow> real mat3 \<Rightarrow> bool" where
  "is_inverse3 Hi H = (numpy_dot Hi H = id3 \<and> numpy_dot H Hi = id3)"

definition spec_conic_transform ::
    "real \<times> real \<times> real \<times> real \<times> real \<times> real \<Rightarrow> real mat3
      \<Rightarrow> real \<times> real \<times> real \<times> real \<times> real \<times> real" where
  "spec_conic_transform c Hi =
     matrix_conic (numpy_dot (transpose3 Hi) (numpy_dot (conic_matrix c) Hi))"

definition conic_eval :: "real \<times> real \<times> real \<times> real \<times> real \<times> real \<Rightarrow> real \<Rightarrow> real \<Rightarrow> real" where
  "conic_eval c x y =
     (case c of (A, B, C, D, E, F) \<Rightarrow>
        A * x\<^sup>2 + B * x * y + C * y\<^sup>2 + D * x + E * y + F)"

text \<open>The same equation in homogeneous coordinates, and a matrix applied to a column.\<close>

definition conic_hom :: "real \<times> real \<times> real \<times> real \<times> real \<times> real \<Rightarrow> real \<times> real \<times> real \<Rightarrow> real" where
  "conic_hom c p =
     (case c of (A, B, C, D, E, F) \<Rightarrow> case p of (u, v, w) \<Rightarrow>
        A * u\<^sup>2 + B * u * v + C * v\<^sup>2 + D * u * w + E * v * w + F * w\<^sup>2)"

fun mat_vec :: "real mat3 \<Rightarrow> real \<times> real \<times> real \<Rightarrow> real \<times> real \<times> real" where
  "mat_vec ((a00, a01, a02), (a10, a11, a12), (a20, a21, a22)) (u, v, w) =
     (a00 * u + a01 * v + a02 * w,
      a10 * u + a11 * v + a12 * w,
      a20 * u + a21 * v + a22 * w)"









section \<open>Finite values compute as reals\<close>

lemma fin_minus [simp]: "Fin a - Fin b = Fin (a - b)"
  by (simp add: minus_fval_def)

lemma pow2_fin [simp]: "pow2 (Fin a) = Fin (a\<^sup>2)"
  by (simp add: pow2_def power2_eq_square)

section \<open>The conic of geometric parameters is in canonical scale\<close>

lemma conic_from_gparams_fin:
  "conic_from_gparams (Fin x0, Fin y0, Fin a, Fin b, Fin t) =
     (let A = a\<^sup>2 * (sin t)\<^sup>2 + b\<^sup>2 * (cos t)\<^sup>2;
          B = 2 * (b\<^sup>2 - a\<^sup>2) * sin t * cos t;
          C = a\<^sup>2 * (cos t)\<^sup>2 + b\<^sup>2 * (sin t)\<^sup>2
      in (Fin A, Fin B, Fin C, Fin (- 2 * A * x0 - B * y0), Fin (- B * x0 - 2 * C * y0),
          Fin (A * x0\<^sup>2 + B * x0 * y0 + C * y0\<^sup>2 - a\<^sup>2 * b\<^sup>2)))"
  by (simp add: conic_from_gparams_def Let_def algebra_simps)

lemma conic_scale_TS:
  assumes "Fin 4 * A * C - B * B = Fin T"
    and "A * pow2 E + pow2 B * F + C * pow2 D - B * D * E - Fin 4 * A * C * F = Fin S"
  shows "conic_scale (A, B, C, D, E, F) =
     (if T < 0 \<or> S = 0 then (PInf, PInf)
      else (Fin (T\<^sup>2 / (4 * S)),
            if T = 0 then (if 0 < S then PInf else NInf) else Fin (2 * S / (T * sqrt T))))"
  by (simp add: conic_scale_def Let_def assms numpy_inf_def)

lemma conic_invariants:
  fixes a b s c x0 y0 :: real
  assumes sc: "s\<^sup>2 + c\<^sup>2 = 1"
  defines "A \<equiv> a\<^sup>2 * s\<^sup>2 + b\<^sup>2 * c\<^sup>2"
    and "B \<equiv> 2 * (b\<^sup>2 - a\<^sup>2) * s * c"
    and "C \<equiv> a\<^sup>2 * c\<^sup>2 + b\<^sup>2 * s\<^sup>2"
  defines "D \<equiv> - 2 * A * x0 - B * y0"
    and "E \<equiv> - B * x0 - 2 * C * y0"
    and "F \<equiv> A * x0\<^sup>2 + B * x0 * y0 + C * y0\<^sup>2 - a\<^sup>2 * b\<^sup>2"
  shows "4 * A * C - B * B = 4 * a\<^sup>2 * b\<^sup>2"
    and "A * E\<^sup>2 + B\<^sup>2 * F + C * D\<^sup>2 - B * D * E - 4 * A * C * F = 4 * a^4 * b^4"
proof -
  have "4 * A * C - B * B = 4 * a\<^sup>2 * b\<^sup>2 * (s\<^sup>2 + c\<^sup>2)\<^sup>2"
    unfolding A_def B_def C_def by (simp add: power2_eq_square algebra_simps)
  then show T: "4 * A * C - B * B = 4 * a\<^sup>2 * b\<^sup>2" by (simp add: sc)
  have "A * E\<^sup>2 + B\<^sup>2 * F + C * D\<^sup>2 - B * D * E - 4 * A * C * F
      = a\<^sup>2 * b\<^sup>2 * (4 * A * C - B * B)"
    unfolding D_def E_def F_def by (simp add: power2_eq_square algebra_simps)
  then show "A * E\<^sup>2 + B\<^sup>2 * F + C * D\<^sup>2 - B * D * E - 4 * A * C * F = 4 * a^4 * b^4"
    by (simp add: T power2_eq_square power4_eq_xxxx)
qed

lemma conic_scale_canonical:
  assumes "0 < a" and "0 < b"
  shows "conic_scale (conic_from_gparams (fin5 (x0, y0, a, b, theta))) = (Fin 1, Fin (a * b))"
proof -
  define A where "A = a\<^sup>2 * (sin theta)\<^sup>2 + b\<^sup>2 * (cos theta)\<^sup>2"
  define B where "B = 2 * (b\<^sup>2 - a\<^sup>2) * sin theta * cos theta"
  define C where "C = a\<^sup>2 * (cos theta)\<^sup>2 + b\<^sup>2 * (sin theta)\<^sup>2"
  define D where "D = - 2 * A * x0 - B * y0"
  define E where "E = - B * x0 - 2 * C * y0"
  define F where "F = A * x0\<^sup>2 + B * x0 * y0 + C * y0\<^sup>2 - a\<^sup>2 * b\<^sup>2"
  define T where "T = 4 * a\<^sup>2 * b\<^sup>2"
  define S where "S = 4 * a^4 * b^4"
  have inv: "4 * A * C - B * B = T"
    "A * E\<^sup>2 + B\<^sup>2 * F + C * D\<^sup>2 - B * D * E - 4 * A * C * F = S"
    unfolding A_def B_def C_def D_def E_def F_def T_def S_def
    by (rule conic_invariants, simp)+
  have c: "conic_from_gparams (fin5 (x0, y0, a, b, theta)) = (Fin A, Fin B, Fin C, Fin D, Fin E, Fin F)"
    by (simp add: fin5_def conic_from_gparams_fin Let_def A_def B_def C_def D_def E_def F_def algebra_simps)
  have Tpos: "0 < T" and Spos: "0 < S" using assms by (simp_all add: T_def S_def)
  have sq: "sqrt T = 2 * a * b"
    using assms by (intro real_sqrt_unique) (simp_all add: T_def power2_eq_square)
  have "conic_scale (Fin A, Fin B, Fin C, Fin D, Fin E, Fin F) =
      (Fin (T\<^sup>2 / (4 * S)), Fin (2 * S / (T * sqrt T)))"
    using Tpos Spos by (subst conic_scale_TS [of _ _ _ T _ _ _ S]) (simp_all add: inv)
  moreover have "T\<^sup>2 / (4 * S) = 1"
    using assms by (simp add: T_def S_def power2_eq_square power4_eq_xxxx)
  moreover have "2 * S / (T * sqrt T) = a * b"
  proof -
    have "2 * S / (T * sqrt T) = 2 * S / (T * (2 * a * b))" by (simp only: sq)
    also have "\<dots> = a * b"
      using assms by (simp add: T_def S_def power2_eq_square power4_eq_xxxx)
    finally show ?thesis .
  qed
  ultimately show ?thesis by (simp add: c)
qed

text \<open>
  Claim C1. For geometric parameters with \<open>a > 0\<close> and \<open>b > 0\<close>, the scale of the conic
  built by \<open>conic_from_gparams\<close> is exactly \<open>(k, ab) = (1, a * b)\<close>.
\<close>

theorem conic_scale_of_gparams:
  assumes "0 < a" and "0 < b"
  shows "conic_scale (conic_from_gparams (fin5 (x0, y0, a, b, theta))) = (Fin 1, Fin (a * b))"
  using assms by (rule conic_scale_canonical)

text \<open>The scenario of the test: \<open>(450, 320, 300, 200, -0.25)\<close> gives \<open>(1, 60000)\<close>.\<close>

theorem conic_scale_of_gparams_witness:
  "conic_scale (conic_from_gparams (fin5 (450, 320, 300, 200, - 0.25))) = (Fin 1, Fin 60000)"
  using conic_scale_of_gparams [of 300 200 450 320 "- 0.25"] by simp

section \<open>The eigensolver\<close>

lemma eigh_radicand:
  "pow2 (Fin z) - Fin 2 * Fin x * Fin z + Fin 4 * pow2 (Fin y) + pow2 (Fin x)
     = Fin ((z - x)\<^sup>2 + 4 * y\<^sup>2)"
  by (simp add: power2_eq_square algebra_simps)

lemma numpy_sqrt_nonneg: "0 \<le> r \<Longrightarrow> numpy_sqrt (Fin r) = Fin (sqrt r)"
  by simp

lemma eigh_2x2_fin:
  "eigh_2x2 (Fin x) (Fin y) (Fin z) =
     ((Fin (0.5 * (z + x - sqrt ((z - x)\<^sup>2 + 4 * y\<^sup>2))),
       Fin (0.5 * (z + x + sqrt ((z - x)\<^sup>2 + 4 * y\<^sup>2)))),
      ((Fin (2 * y), Fin (2 * y)),
       (Fin (z - x - sqrt ((z - x)\<^sup>2 + 4 * y\<^sup>2)),
        Fin (z - x + sqrt ((z - x)\<^sup>2 + 4 * y\<^sup>2)))))"
proof -
  have "0 \<le> (z - x)\<^sup>2 + 4 * y\<^sup>2" by simp
  then have q: "numpy_sqrt (Fin ((z - x)\<^sup>2 + 4 * y\<^sup>2)) = Fin (sqrt ((z - x)\<^sup>2 + 4 * y\<^sup>2))"
    by (rule numpy_sqrt_nonneg)
  show ?thesis
    unfolding eigh_2x2_def eigh_radicand q Let_def by simp
qed

text \<open>
  Claim C6. On real inputs \<open>(x, y, z)\<close>, \<open>eigh_2x2\<close> returns the eigenvalues
  \<open>w0 = 0.5 * (z + x - q)\<close> and \<open>w1 = 0.5 * (z + x + q)\<close> with
  \<open>q = sqrt ((z - x)\<^sup>2 + 4 * y\<^sup>2)\<close>, in the order \<open>w0 \<le> w1\<close>, and each column
  \<open>(2 * y, z - x - q)\<close>, \<open>(2 * y, z - x + q)\<close> satisfies the eigen-equation of
  \<open>[[x, y], [y, z]]\<close> for its eigenvalue.
\<close>

theorem eigh_2x2_eigenpairs:
  "let q = sqrt ((z - x)\<^sup>2 + 4 * y\<^sup>2);
       w0 = 0.5 * (z + x - q);
       w1 = 0.5 * (z + x + q)
   in eigh_2x2 (Fin x) (Fin y) (Fin z) =
        ((Fin w0, Fin w1), ((Fin (2 * y), Fin (2 * y)), (Fin (z - x - q), Fin (z - x + q))))
      \<and> w0 \<le> w1
      \<and> x * (2 * y) + y * (z - x - q) = w0 * (2 * y)
      \<and> y * (2 * y) + z * (z - x - q) = w0 * (z - x - q)
      \<and> x * (2 * y) + y * (z - x + q) = w1 * (2 * y)
      \<and> y * (2 * y) + z * (z - x + q) = w1 * (z - x + q)"
proof -
  define q where "q = sqrt ((z - x)\<^sup>2 + 4 * y\<^sup>2)"
  have q0: "0 \<le> q" by (simp add: q_def)
  have q2: "q * q = (z - x)\<^sup>2 + 4 * y\<^sup>2"
    unfolding q_def by simp
  have e1: "x * (2 * y) + y * (z - x - q) = 0.5 * (z + x - q) * (2 * y)"
    by (simp add: algebra_simps)
  have e3: "x * (2 * y) + y * (z - x + q) = 0.5 * (z + x + q) * (2 * y)"
    by (simp add: algebra_simps)
  have "2 * (y * (2 * y) + z * (z - x - q)) - (z + x - q) * (z - x - q)
      = (z - x)\<^sup>2 + 4 * y\<^sup>2 - q * q"
    by (simp add: power2_eq_square algebra_simps)
  then have e2: "y * (2 * y) + z * (z - x - q) = 0.5 * (z + x - q) * (z - x - q)"
    using q2 by simp
  have "2 * (y * (2 * y) + z * (z - x + q)) - (z + x + q) * (z - x + q)
      = (z - x)\<^sup>2 + 4 * y\<^sup>2 - q * q"
    by (simp add: power2_eq_square algebra_simps)
  then have e4: "y * (2 * y) + z * (z - x + q) = 0.5 * (z + x + q) * (z - x + q)"
    using q2 by simp
  show ?thesis
    unfolding Let_def q_def [symmetric]
    using q0 e1 e2 e3 e4 by (simp add: eigh_2x2_fin q_def [symmetric])
qed

section \<open>Moments of geometric parameters and the conic of moments\<close>

lemma fin_div [simp]: "b \<noteq> 0 \<Longrightarrow> Fin a / Fin b = Fin (a / b)"
  by simp

lemma moments_from_gparams_fin:
  "moments_from_gparams (Fin x0, Fin y0, Fin a, Fin b, Fin t) =
     (Fin (a * b * pi), Fin (x0 * (a * b * pi)), Fin (y0 * (a * b * pi)),
      Fin ((a\<^sup>2 * (cos t)\<^sup>2 + b\<^sup>2 * (sin t)\<^sup>2) * (a * b * pi) * 0.25),
      Fin (- (b\<^sup>2 - a\<^sup>2) * sin t * cos t * (a * b * pi) * 0.25),
      Fin ((a\<^sup>2 * (sin t)\<^sup>2 + b\<^sup>2 * (cos t)\<^sup>2) * (a * b * pi) * 0.25))"
  by (simp add: moments_from_gparams_def Let_def numpy_pi_def)

lemma conic_from_moments_fin:
  assumes "m00 \<noteq> 0"
  shows "conic_from_moments (Fin m00, Fin (x0 * m00), Fin (y0 * m00),
           Fin (P * m00 * 0.25), Fin (Q * m00 * 0.25), Fin (R * m00 * 0.25)) =
         (Fin R, Fin (- 2 * Q), Fin P,
          Fin (- 2 * R * x0 - (- 2 * Q) * y0),
          Fin (- (- 2 * Q) * x0 - 2 * P * y0),
          Fin (R * x0\<^sup>2 + (- 2 * Q) * x0 * y0 + P * y0\<^sup>2 - 0.25 * (4 * R * P - (- 2 * Q) * (- 2 * Q))))"
proof -
  have d: "Fin (x0 * m00) / Fin m00 = Fin x0" "Fin (y0 * m00) / Fin m00 = Fin y0"
    "Fin 4 * Fin (R * m00 * 0.25) / Fin m00 = Fin R"
    "Fin (- 8) * Fin (Q * m00 * 0.25) / Fin m00 = Fin (- 2 * Q)"
    "Fin 4 * Fin (P * m00 * 0.25) / Fin m00 = Fin P"
    using assms by simp_all
  show ?thesis
    unfolding conic_from_moments_def prod.case Let_def d by simp
qed

text \<open>
  Claim C4. For geometric parameters with \<open>a > 0\<close> and \<open>b > 0\<close>, the conic of their
  moments is the conic of the parameters, coefficient by coefficient.
\<close>

theorem conic_from_moments_of_gparams:
  assumes "0 < a" and "0 < b"
  shows "conic_from_moments (moments_from_gparams (fin5 (x0, y0, a, b, theta))) =
         conic_from_gparams (fin5 (x0, y0, a, b, theta))"
proof -
  define s where "s = sin theta"
  define c where "c = cos theta"
  define P where "P = a\<^sup>2 * c\<^sup>2 + b\<^sup>2 * s\<^sup>2"
  define Q where "Q = - (b\<^sup>2 - a\<^sup>2) * s * c"
  define R where "R = a\<^sup>2 * s\<^sup>2 + b\<^sup>2 * c\<^sup>2"
  define m00 where "m00 = a * b * pi"
  have m00: "m00 \<noteq> 0" using assms by (simp add: m00_def)
  have sc: "s\<^sup>2 + c\<^sup>2 = 1" by (simp add: s_def c_def)
  have B: "- 2 * Q = 2 * (b\<^sup>2 - a\<^sup>2) * s * c" by (simp add: Q_def algebra_simps)
  have T: "4 * R * P - (2 * (b\<^sup>2 - a\<^sup>2) * s * c) * (2 * (b\<^sup>2 - a\<^sup>2) * s * c) = 4 * a\<^sup>2 * b\<^sup>2"
    unfolding R_def P_def by (rule conic_invariants(1) [OF sc])
  have "moments_from_gparams (fin5 (x0, y0, a, b, theta)) =
      (Fin m00, Fin (x0 * m00), Fin (y0 * m00),
       Fin (P * m00 * 0.25), Fin (Q * m00 * 0.25), Fin (R * m00 * 0.25))"
    unfolding fin5_def prod.case moments_from_gparams_fin
    by (simp only: P_def Q_def R_def m00_def s_def c_def)
  then have "conic_from_moments (moments_from_gparams (fin5 (x0, y0, a, b, theta))) =
      (Fin R, Fin (- 2 * Q), Fin P,
       Fin (- 2 * R * x0 - (- 2 * Q) * y0),
       Fin (- (- 2 * Q) * x0 - 2 * P * y0),
       Fin (R * x0\<^sup>2 + (- 2 * Q) * x0 * y0 + P * y0\<^sup>2 - 0.25 * (4 * R * P - (- 2 * Q) * (- 2 * Q))))"
    by (simp only: conic_from_moments_fin [OF m00])
  also have "\<dots> =
      (Fin R, Fin (2 * (b\<^sup>2 - a\<^sup>2) * s * c), Fin P,
       Fin (- 2 * R * x0 - (2 * (b\<^sup>2 - a\<^sup>2) * s * c) * y0),
       Fin (- (2 * (b\<^sup>2 - a\<^sup>2) * s * c) * x0 - 2 * P * y0),
       Fin (R * x0\<^sup>2 + (2 * (b\<^sup>2 - a\<^sup>2) * s * c) * x0 * y0 + P * y0\<^sup>2 - a\<^sup>2 * b\<^sup>2))"
    unfolding B T by simp
  also have "\<dots> = conic_from_gparams (fin5 (x0, y0, a, b, theta))"
    unfolding fin5_def prod.case conic_from_gparams_fin Let_def
    by (simp only: P_def R_def s_def c_def)
  finally show ?thesis .
qed

theorem conic_from_moments_of_gparams_witness:
  "conic_from_moments (moments_from_gparams (fin5 (450, 320, 300, 200, - 0.25))) =
   conic_from_gparams (fin5 (450, 320, 300, 200, - 0.25))"
  using conic_from_moments_of_gparams [of 300 200 450 320 "- 0.25"] by simp

section \<open>The scale of a conic with real coefficients\<close>

lemma conic_scale_fin:
  "conic_scale (fin6 c) =
     (if conic_T c < 0 \<or> conic_S c = 0 then (PInf, PInf)
      else (Fin ((conic_T c)\<^sup>2 / (4 * conic_S c)),
            if conic_T c = 0 then (if 0 < conic_S c then PInf else NInf)
            else Fin (2 * conic_S c / (conic_T c * sqrt (conic_T c)))))"
proof (cases c)
  case (fields A B C D E F)
  have "Fin 4 * Fin A * Fin C - Fin B * Fin B = Fin (conic_T c)"
    by (simp add: fields conic_T_def power2_eq_square)
  moreover have "Fin A * pow2 (Fin E) + pow2 (Fin B) * Fin F + Fin C * pow2 (Fin D)
      - Fin B * Fin D * Fin E - Fin 4 * Fin A * Fin C * Fin F = Fin (conic_S c)"
    by (simp add: fields conic_S_def)
  ultimately show ?thesis
    unfolding fields fin6_def prod.case by (rule conic_scale_TS)
qed

lemma conic_scale_isinf:
  "numpy_isinf (snd (conic_scale (fin6 c))) = (conic_T c \<le> 0 \<or> conic_S c = 0)"
  by (auto simp add: conic_scale_fin)

lemma gparams_from_conic_None:
  "(gparams_from_conic c = None) = numpy_isinf (snd (conic_scale c))"
  by (simp add: gparams_from_conic_def Let_def split: prod.splits)

lemma moments_from_conic_None:
  "(moments_from_conic c = None) = numpy_isinf (snd (conic_scale c))"
  by (simp add: moments_from_conic_def Let_def split: prod.splits)

text \<open>
  Claim C7, as the code has it: in exact real arithmetic. On a conic with real
  coefficients, computed without overflow or underflow, \<open>gparams_from_conic\<close> and
  \<open>moments_from_conic\<close> return the sentinel \<open>None\<close> exactly when \<open>T = 4AC - B\<^sup>2\<close> is not
  strictly positive or \<open>S\<close> is zero, and a parameter array otherwise. No operation of
  the two functions raises there.
\<close>

theorem sentinel_iff_not_ellipse:
  "(gparams_from_conic (fin6 c) = None) = (conic_T c \<le> 0 \<or> conic_S c = 0)
   \<and> (moments_from_conic (fin6 c) = None) = (conic_T c \<le> 0 \<or> conic_S c = 0)"
  by (simp only: gparams_from_conic_None moments_from_conic_None conic_scale_isinf)

lemma double_range_zero: "double_range (Fin 0) = Fin 0"
  by (simp add: double_range_def)

lemma double_range_keep:
  assumes "1 / 2 ^ 1000 \<le> \<bar>r\<bar>" and "\<bar>r\<bar> \<le> 2 ^ 1000"
  shows "double_range (Fin r) = Fin r"
proof -
  have "(2 :: real) ^ 1000 < 2 ^ 1024 - 2 ^ 970" by simp
  then have up: "\<not> 2 ^ 1024 - 2 ^ 970 \<le> \<bar>r\<bar>" using assms(2) by linarith
  have "(1 :: real) / 2 ^ 1075 < 1 / 2 ^ 1000" by simp
  then have lo: "\<not> \<bar>r\<bar> \<le> 1 / 2 ^ 1075" using assms(1) by linarith
  show ?thesis using up lo by (simp add: double_range_def)
qed

lemma double_range_overflow:
  assumes "2 ^ 1024 \<le> r"
  shows "double_range (Fin r) = PInf"
proof -
  have "(0 :: real) < 2 ^ 1024" by simp
  then have "0 < r" using assms by linarith
  moreover have "2 ^ 1024 - 2 ^ 970 \<le> \<bar>r\<bar>" using assms by simp
  ultimately show ?thesis by (simp add: double_range_def)
qed

lemma double_range_inf: "double_range PInf = PInf"
  by (simp add: double_range_def)

lemma conic_scale_double_overflow:
  "conic_scale_double (double6 (1, 0, 1, 2 ^ 600, 0, - 1)) = (Double (Fin 0), Double PInf)"
  by (simp add: double6_def conic_scale_double_def Let_def double_pow2_def double_of_def
      double_inf_def double_range_zero double_range_keep double_range_overflow double_range_inf
      minus_fval_def)

text \<open>
  The claim as stated, of every conic tuple, fails on doubles. The conic
  \<open>(1, 0, 1, 2 ^ 600, 0, -1)\<close> has \<open>T = 4 > 0\<close> and \<open>S = 2 ^ 1200 + 4 \<noteq> 0\<close>, every
  coefficient is an exact double, and \<^verbatim>\<open>D**2\<close> overflows: \<open>S\<close> is infinite, \<open>k = 0\<close>, \<open>ab\<close>
  is infinite and both conversions return \<open>None\<close>.
\<close>

theorem sentinel_on_doubles_counterexample:
  "0 < conic_T (1, 0, 1, 2 ^ 600, 0, - 1) \<and> conic_S (1, 0, 1, 2 ^ 600, 0, - 1) \<noteq> 0
   \<and> gparams_from_conic_double (double6 (1, 0, 1, 2 ^ 600, 0, - 1)) = None
   \<and> moments_from_conic_double (double6 (1, 0, 1, 2 ^ 600, 0, - 1)) = None"
proof -
  have "0 < conic_T (1, 0, 1, 2 ^ 600, 0, - 1)"
    by (simp add: conic_T_def)
  moreover have "conic_S (1, 0, 1, 2 ^ 600, 0, - 1) = (2 ^ 600)\<^sup>2 + 4"
    by (simp add: conic_S_def)
  then have "conic_S (1, 0, 1, 2 ^ 600, 0, - 1) \<noteq> 0"
    by (simp add: add_nonneg_eq_0_iff)
  moreover have "gparams_from_conic_double (double6 (1, 0, 1, 2 ^ 600, 0, - 1)) = None"
    unfolding gparams_from_conic_double_def conic_scale_double_overflow by simp
  moreover have "moments_from_conic_double (double6 (1, 0, 1, 2 ^ 600, 0, - 1)) = None"
    unfolding moments_from_conic_double_def conic_scale_double_overflow by simp
  ultimately show ?thesis by simp
qed



lemma conic_invariants_times:
  "conic_T (conic_times k c) = k\<^sup>2 * conic_T c"
  "conic_S (conic_times k c) = k ^ 3 * conic_S c"
  by (cases c; simp add: conic_T_def conic_S_def conic_times_def power2_eq_square
      power3_eq_cube algebra_simps)+

text \<open>
  How the scale of a conic follows a multiplication by \<open>k \<noteq> 0\<close>, on an ellipse
  (\<open>T > 0\<close>, \<open>S \<noteq> 0\<close>): the divisor is multiplied by \<open>k\<close> and \<open>ab\<close> by the sign of \<open>k\<close>.
\<close>

lemma conic_scale_times:
  assumes k: "k \<noteq> 0" and T: "0 < conic_T c" and S: "conic_S c \<noteq> 0"
  shows "conic_scale (fin6 (conic_times k c)) =
         (Fin (k * ((conic_T c)\<^sup>2 / (4 * conic_S c))),
          Fin (sgn k * (2 * conic_S c / (conic_T c * sqrt (conic_T c)))))"
proof -
  define T0 where "T0 = conic_T c"
  define S0 where "S0 = conic_S c"
  have T': "0 < k\<^sup>2 * T0" using k T by (simp add: T0_def)
  have S': "k ^ 3 * S0 \<noteq> 0" using k S by (simp add: S0_def)
  have sq: "sqrt (k\<^sup>2 * T0) = \<bar>k\<bar> * sqrt T0"
    by (simp add: real_sqrt_mult)
  have kk: "(k\<^sup>2 * T0)\<^sup>2 / (4 * (k ^ 3 * S0)) = k * (T0\<^sup>2 / (4 * S0))"
    using k S by (simp add: S0_def power2_eq_square power3_eq_cube)
  have "k ^ 3 = sgn k * (k\<^sup>2 * \<bar>k\<bar>)"
    by (simp add: power2_eq_square power3_eq_cube sgn_real_def)
  then have "2 * (k ^ 3 * S0) / (k\<^sup>2 * T0 * (\<bar>k\<bar> * sqrt T0)) =
      sgn k * (k\<^sup>2 * \<bar>k\<bar>) * (2 * S0) / ((k\<^sup>2 * \<bar>k\<bar>) * (T0 * sqrt T0))"
    by (simp add: mult_ac)
  also have "\<dots> = sgn k * (2 * S0 / (T0 * sqrt T0))"
    using k by simp
  finally have ab: "2 * (k ^ 3 * S0) / (k\<^sup>2 * T0 * sqrt (k\<^sup>2 * T0)) =
      sgn k * (2 * S0 / (T0 * sqrt T0))"
    by (simp only: sq)
  have n1: "\<not> (k\<^sup>2 * T0 < 0 \<or> k ^ 3 * S0 = 0)"
    using T' S' by (simp add: not_less less_imp_le)
  have n2: "(k\<^sup>2 * T0 = 0) = False"
    using k T by (simp add: T0_def)
  show ?thesis
    unfolding conic_scale_fin conic_invariants_times T0_def [symmetric] S0_def [symmetric]
    by (simp only: n1 n2 if_False kk ab)
qed

text \<open>
  Claim C5 says that \<open>ab\<close> is unchanged by the multiplication. At the unit circle
  \<open>x\<^sup>2 + y\<^sup>2 - 1 = 0\<close> and its multiple by \<open>k = -1\<close> the divisor is multiplied by \<open>k\<close>
  and \<open>ab\<close> changes sign with it, although both tuples describe the same circle, of
  semi-axes product \<open>1\<close>.
\<close>

theorem conic_scale_negated_circle:
  "conic_scale (fin6 (1, 0, 1, 0, 0, - 1)) = (Fin 1, Fin 1)
   \<and> conic_scale (fin6 (conic_times (- 1) (1, 0, 1, 0, 0, - 1))) = (Fin (- 1), Fin (- 1))"
  by (simp add: conic_scale_fin conic_times_def conic_T_def conic_S_def)

section \<open>Round trips through the conic and through the moments\<close>

lemma gparams_from_conic_fin:
  fixes A B C D E F k ab :: real
  assumes cs: "conic_scale (Fin A, Fin B, Fin C, Fin D, Fin E, Fin F) = (Fin k, Fin ab)"
    and T: "4 * A * C - B\<^sup>2 \<noteq> 0" and k: "k \<noteq> 0"
  defines "q \<equiv> sqrt ((C - A)\<^sup>2 + 4 * (B / 2)\<^sup>2)"
  shows "gparams_from_conic (Fin A, Fin B, Fin C, Fin D, Fin E, Fin F) =
     Some (Fin ((B * E - 2 * C * D) / (4 * A * C - B\<^sup>2)),
           Fin ((- 2 * A * E + B * D) / (4 * A * C - B\<^sup>2)),
           numpy_sqrt (Fin (0.5 * (C + A + q) / k)),
           numpy_sqrt (Fin (0.5 * (C + A - q) / k)),
           numpy_arctan2 (Fin (- (2 * (B / 2)))) (Fin (C - A + q)))"
proof -
  have h: "Fin 0.5 * Fin B = Fin (B / 2)" by simp
  have x0: "(Fin B * Fin E - Fin 2 * Fin C * Fin D) / (Fin 4 * Fin A * Fin C - pow2 (Fin B))
      = Fin ((B * E - 2 * C * D) / (4 * A * C - B\<^sup>2))"
    using T by simp
  have y0: "(Fin (- 2) * Fin A * Fin E + Fin B * Fin D) / (Fin 4 * Fin A * Fin C - pow2 (Fin B))
      = Fin ((- 2 * A * E + B * D) / (4 * A * C - B\<^sup>2))"
    using T by simp
  show ?thesis
    unfolding gparams_from_conic_def cs prod.case h eigh_2x2_fin x0 y0 Let_def
    using k by (simp add: q_def)
qed

lemma axes_of_conic:
  fixes a b s c :: real
  assumes sc: "s\<^sup>2 + c\<^sup>2 = 1" and ab: "b \<le> a" and b0: "0 \<le> b"
  defines "A \<equiv> a\<^sup>2 * s\<^sup>2 + b\<^sup>2 * c\<^sup>2"
    and "B \<equiv> 2 * (b\<^sup>2 - a\<^sup>2) * s * c"
    and "C \<equiv> a\<^sup>2 * c\<^sup>2 + b\<^sup>2 * s\<^sup>2"
  defines "q \<equiv> sqrt ((C - A)\<^sup>2 + 4 * (B / 2)\<^sup>2)"
  shows "q = a\<^sup>2 - b\<^sup>2"
    and "0.5 * (C + A + q) = a\<^sup>2"
    and "0.5 * (C + A - q) = b\<^sup>2"
    and "- (2 * (B / 2)) = (a\<^sup>2 - b\<^sup>2) * (2 * c) * s"
    and "C - A + q = (a\<^sup>2 - b\<^sup>2) * (2 * c) * c"
proof -
  have d: "0 \<le> a\<^sup>2 - b\<^sup>2"
    using ab b0 by (simp add: power_mono)
  have "4 * (B / 2)\<^sup>2 = B\<^sup>2"
    by (simp add: power2_eq_square)
  moreover have "(C - A)\<^sup>2 + B\<^sup>2 = (a\<^sup>2 - b\<^sup>2)\<^sup>2 * (s\<^sup>2 + c\<^sup>2)\<^sup>2"
    unfolding A_def B_def C_def by (simp add: power2_eq_square algebra_simps)
  ultimately have "(C - A)\<^sup>2 + 4 * (B / 2)\<^sup>2 = (a\<^sup>2 - b\<^sup>2)\<^sup>2 * (s\<^sup>2 + c\<^sup>2)\<^sup>2"
    by simp
  then have "(a\<^sup>2 - b\<^sup>2)\<^sup>2 = (C - A)\<^sup>2 + 4 * (B / 2)\<^sup>2"
    by (simp add: sc)
  then show q: "q = a\<^sup>2 - b\<^sup>2"
    unfolding q_def using d by (rule real_sqrt_unique)
  have sum: "C + A = (a\<^sup>2 + b\<^sup>2) * (s\<^sup>2 + c\<^sup>2)"
    unfolding A_def C_def by (simp add: algebra_simps)
  show "0.5 * (C + A + q) = a\<^sup>2" and "0.5 * (C + A - q) = b\<^sup>2"
    unfolding q sum sc by simp_all
  have "- (2 * (B / 2)) = - B" by simp
  also have "\<dots> = (a\<^sup>2 - b\<^sup>2) * (2 * c) * s"
    unfolding B_def by (simp add: algebra_simps)
  finally show "- (2 * (B / 2)) = (a\<^sup>2 - b\<^sup>2) * (2 * c) * s" .
  have "C - A + q = (a\<^sup>2 - b\<^sup>2) * (c\<^sup>2 - s\<^sup>2 + (s\<^sup>2 + c\<^sup>2))"
    unfolding q sc unfolding A_def C_def by (simp add: algebra_simps)
  then show "C - A + q = (a\<^sup>2 - b\<^sup>2) * (2 * c) * c"
    by (simp add: power2_eq_square algebra_simps)
qed

text \<open>The angle read off a vector along \<open>(cos t, sin t)\<close>, scaled by \<open>d * (2 * cos t)\<close>.\<close>

lemma arctan2_of_axis:
  fixes d s c :: real
  assumes "0 \<le> d"
  shows "numpy_arctan2 (Fin (d * (2 * c) * s)) (Fin (d * (2 * c) * c)) =
         Fin (if 0 < d \<and> c \<noteq> 0 then arctan (s / c) else 0)"
proof (cases "0 < d \<and> c \<noteq> 0")
  case True
  then have pos: "0 < d * (2 * c) * c"
    by (simp add: zero_less_mult_iff mult_less_0_iff) (metis not_less_iff_gr_or_eq)
  have "(d * (2 * c) * s) / (d * (2 * c) * c) = s / c"
    using True by simp
  then show ?thesis using True pos by simp
next
  case False
  then have z: "d * (2 * c) * s = 0" "d * (2 * c) * c = 0"
    using assms by auto
  show ?thesis unfolding z using False by simp
qed

lemma cong_arctan_tan:
  assumes "cos t \<noteq> 0"
  shows "cong_mod_pi (arctan (sin t / cos t)) t"
proof -
  define u where "u = arctan (sin t / cos t)"
  have cu: "cos u \<noteq> 0" unfolding u_def by (rule cos_arctan_not_zero)
  have "tan u = sin t / cos t" unfolding u_def by (rule tan_arctan)
  then have "sin u / cos u = sin t / cos t" by (simp add: tan_def)
  then have "sin u * cos t = cos u * sin t"
    using cu assms by (simp add: field_simps)
  then have "sin (u - t) = 0" by (simp add: sin_diff)
  then show ?thesis by (simp add: cong_mod_pi_def u_def)
qed

lemma gparams_conic_roundtrip_exact:
  assumes b0: "0 < b" and ab: "b \<le> a"
  shows "gparams_from_conic (conic_from_gparams (fin5 (x0, y0, a, b, theta))) =
         Some (fin5 (x0, y0, a, b,
                 if 0 < a\<^sup>2 - b\<^sup>2 \<and> cos theta \<noteq> 0 then arctan (sin theta / cos theta) else 0))"
proof -
  define s where "s = sin theta"
  define c where "c = cos theta"
  define A where "A = a\<^sup>2 * s\<^sup>2 + b\<^sup>2 * c\<^sup>2"
  define B where "B = 2 * (b\<^sup>2 - a\<^sup>2) * s * c"
  define C where "C = a\<^sup>2 * c\<^sup>2 + b\<^sup>2 * s\<^sup>2"
  define D where "D = - 2 * A * x0 - B * y0"
  define E where "E = - B * x0 - 2 * C * y0"
  define F where "F = A * x0\<^sup>2 + B * x0 * y0 + C * y0\<^sup>2 - a\<^sup>2 * b\<^sup>2"
  define q where "q = sqrt ((C - A)\<^sup>2 + 4 * (B / 2)\<^sup>2)"
  have a0: "0 < a" using b0 ab by simp
  have sc: "s\<^sup>2 + c\<^sup>2 = 1" by (simp add: s_def c_def)
  have d0: "0 \<le> a\<^sup>2 - b\<^sup>2" using ab b0 by (simp add: power_mono)
  have cg: "conic_from_gparams (fin5 (x0, y0, a, b, theta)) =
      (Fin A, Fin B, Fin C, Fin D, Fin E, Fin F)"
    unfolding fin5_def prod.case conic_from_gparams_fin Let_def
    by (simp only: A_def B_def C_def D_def E_def F_def s_def c_def)
  have cs: "conic_scale (Fin A, Fin B, Fin C, Fin D, Fin E, Fin F) = (Fin 1, Fin (a * b))"
    using conic_scale_canonical [OF a0 b0, of x0 y0 theta] unfolding cg .
  have T: "4 * A * C - B\<^sup>2 = 4 * a\<^sup>2 * b\<^sup>2"
    using conic_invariants(1) [OF sc, of a b] unfolding A_def B_def C_def
    by (simp add: power2_eq_square)
  have Tnz: "4 * A * C - B\<^sup>2 \<noteq> 0" using a0 b0 by (simp add: T)
  have "B * E - 2 * C * D = (4 * A * C - B\<^sup>2) * x0"
    unfolding D_def E_def by (simp add: power2_eq_square algebra_simps)
  then have x0: "(B * E - 2 * C * D) / (4 * A * C - B\<^sup>2) = x0"
    using Tnz by simp
  have "- 2 * A * E + B * D = (4 * A * C - B\<^sup>2) * y0"
    unfolding D_def E_def by (simp add: power2_eq_square algebra_simps)
  then have y0: "(- 2 * A * E + B * D) / (4 * A * C - B\<^sup>2) = y0"
    using Tnz by simp
  note ax = axes_of_conic [OF sc ab less_imp_le [OF b0], folded A_def B_def C_def, folded q_def]
  have sa: "numpy_sqrt (Fin (a\<^sup>2)) = Fin a" using a0 by simp
  have sb: "numpy_sqrt (Fin (b\<^sup>2)) = Fin b" using b0 by simp
  have "gparams_from_conic (Fin A, Fin B, Fin C, Fin D, Fin E, Fin F) =
     Some (Fin ((B * E - 2 * C * D) / (4 * A * C - B\<^sup>2)),
           Fin ((- 2 * A * E + B * D) / (4 * A * C - B\<^sup>2)),
           numpy_sqrt (Fin (0.5 * (C + A + q) / 1)),
           numpy_sqrt (Fin (0.5 * (C + A - q) / 1)),
           numpy_arctan2 (Fin (- (2 * (B / 2)))) (Fin (C - A + q)))"
    unfolding q_def by (rule gparams_from_conic_fin [OF cs Tnz]) simp
  also have "\<dots> = Some (Fin x0, Fin y0, Fin a, Fin b,
      Fin (if 0 < a\<^sup>2 - b\<^sup>2 \<and> c \<noteq> 0 then arctan (s / c) else 0))"
    unfolding x0 y0 div_by_1 ax(2) ax(3) ax(4) ax(5) sa sb arctan2_of_axis [OF d0] ..
  finally show ?thesis
    unfolding cg by (simp add: fin5_def s_def c_def)
qed

lemma cong_mod_pi_iff: "cong_mod_pi s t = (\<exists>n::int. s = t + of_int n * pi)"
proof -
  have "(\<exists>n::int. s - t = of_int n * pi) = (\<exists>n::int. s = t + of_int n * pi)"
    by (simp add: algebra_simps)
  then show ?thesis by (simp add: cong_mod_pi_def sin_zero_iff_int2)
qed

text \<open>
  Claim C2, as the code has it. For \<open>a \<ge> b > 0\<close> the conic of the parameters converts
  back to the same centre and the same semi-axes, never to \<open>None\<close>. The angle returned
  is congruent to \<open>theta\<close> modulo \<open>pi\<close> when \<open>a > b\<close> and \<open>cos theta \<noteq> 0\<close>; for a circle,
  \<open>a = b\<close>, it is \<open>0\<close> whatever \<open>theta\<close> was.
\<close>

theorem gparams_conic_roundtrip:
  assumes "0 < b" and "b \<le> a"
  shows "\<exists>t. gparams_from_conic (conic_from_gparams (fin5 (x0, y0, a, b, theta))) =
               Some (fin5 (x0, y0, a, b, t))
             \<and> (b < a \<and> cos theta \<noteq> 0 \<longrightarrow> cong_mod_pi t theta)
             \<and> (a = b \<longrightarrow> t = 0)"
proof -
  have "b < a \<Longrightarrow> 0 < a\<^sup>2 - b\<^sup>2"
    using assms by (simp add: power_strict_mono)
  then show ?thesis
    unfolding gparams_conic_roundtrip_exact [OF assms]
    by (auto simp add: cong_arctan_tan)
qed

theorem gparams_conic_roundtrip_witness:
  "\<exists>t. gparams_from_conic (conic_from_gparams (fin5 (450, 320, 300, 200, - 0.25))) =
          Some (fin5 (450, 320, 300, 200, t))
        \<and> cong_mod_pi t (- 0.25)"
proof -
  have "(0.25 :: real) < pi / 2" using pi_ge_two by simp
  then have "0 < cos (0.25 :: real)" by (intro cos_gt_zero) simp_all
  then have "cos (- 0.25 :: real) \<noteq> 0" by simp
  then show ?thesis
    using gparams_conic_roundtrip [of 200 300 450 320 "- 0.25"] by auto
qed

text \<open>
  The claim as stated fails on a circle: with \<open>a = b = 1\<close> and \<open>theta = 1\<close> the angle
  returned is \<open>0\<close>, which is not congruent to \<open>1\<close> modulo \<open>pi\<close>.
\<close>

theorem gparams_conic_roundtrip_counterexample:
  "gparams_from_conic (conic_from_gparams (fin5 (0, 0, 1, 1, 1))) = Some (fin5 (0, 0, 1, 1, 0))
   \<and> \<not> cong_mod_pi 0 1"
proof -
  have "(1 :: real) < pi" using pi_ge_two by simp
  then have "0 < sin (1 :: real)" by (intro sin_gt_zero) simp_all
  then have "\<not> cong_mod_pi 0 1" by (simp add: cong_mod_pi_def)
  moreover have "gparams_from_conic (conic_from_gparams (fin5 (0, 0, 1, 1, 1))) =
      Some (fin5 (0, 0, 1, 1, 0))"
    using gparams_conic_roundtrip_exact [of 1 1 0 0 1] by simp
  ultimately show ?thesis by simp
qed

lemma gparams_from_moments_fin:
  fixes m00 m10 m01 x y z :: real
  assumes m: "m00 \<noteq> 0"
  defines "q \<equiv> sqrt ((z - x)\<^sup>2 + 4 * y\<^sup>2)"
  shows "gparams_from_moments
           (Fin m00, Fin m10, Fin m01, Fin (x * m00), Fin (y * m00), Fin (z * m00)) =
         (\<lambda>theta. (Fin (m10 / m00), Fin (m01 / m00),
                   Fin 2 * numpy_sqrt (Fin (0.5 * (z + x + q))),
                   Fin 2 * numpy_sqrt (Fin (0.5 * (z + x - q))),
                   theta)) `
           numpy_arctan2_negated (Fin (2 * y)) (Fin (z - x - q))"
proof -
  have d: "Fin m10 / Fin m00 = Fin (m10 / m00)" "Fin m01 / Fin m00 = Fin (m01 / m00)"
    "Fin (x * m00) / Fin m00 = Fin x" "Fin (y * m00) / Fin m00 = Fin y"
    "Fin (z * m00) / Fin m00 = Fin z"
    using m by simp_all
  show ?thesis
    unfolding gparams_from_moments_def prod.case d eigh_2x2_fin Let_def fst_conv snd_conv
    by (simp only: times_fval.simps q_def)
qed

lemma axes_of_moments:
  fixes a b s c :: real
  assumes sc: "s\<^sup>2 + c\<^sup>2 = 1" and ab: "b \<le> a" and b0: "0 \<le> b"
  defines "x \<equiv> (a\<^sup>2 * c\<^sup>2 + b\<^sup>2 * s\<^sup>2) * 0.25"
    and "y \<equiv> - (b\<^sup>2 - a\<^sup>2) * s * c * 0.25"
    and "z \<equiv> (a\<^sup>2 * s\<^sup>2 + b\<^sup>2 * c\<^sup>2) * 0.25"
  defines "q \<equiv> sqrt ((z - x)\<^sup>2 + 4 * y\<^sup>2)"
  shows "q = (a\<^sup>2 - b\<^sup>2) / 4"
    and "0.5 * (z + x + q) = (a / 2)\<^sup>2"
    and "0.5 * (z + x - q) = (b / 2)\<^sup>2"
    and "2 * y = (a\<^sup>2 - b\<^sup>2) / 4 * (2 * c) * s"
    and "- (z - x - q) = (a\<^sup>2 - b\<^sup>2) / 4 * (2 * c) * c"
proof -
  have d: "0 \<le> (a\<^sup>2 - b\<^sup>2) / 4"
    using ab b0 by (simp add: power_mono)
  have "16 * ((z - x)\<^sup>2 + 4 * y\<^sup>2) = (a\<^sup>2 - b\<^sup>2)\<^sup>2 * (s\<^sup>2 + c\<^sup>2)\<^sup>2"
    unfolding x_def y_def z_def by (simp add: power2_eq_square algebra_simps)
  then have "16 * ((z - x)\<^sup>2 + 4 * y\<^sup>2) = (a\<^sup>2 - b\<^sup>2)\<^sup>2"
    by (simp add: sc)
  then have "((a\<^sup>2 - b\<^sup>2) / 4)\<^sup>2 = (z - x)\<^sup>2 + 4 * y\<^sup>2"
    by (simp add: power_divide)
  then show q: "q = (a\<^sup>2 - b\<^sup>2) / 4"
    unfolding q_def using d by (rule real_sqrt_unique)
  have sum: "z + x = (a\<^sup>2 + b\<^sup>2) * (s\<^sup>2 + c\<^sup>2) / 4"
    unfolding x_def z_def by (simp add: algebra_simps)
  show "0.5 * (z + x + q) = (a / 2)\<^sup>2" and "0.5 * (z + x - q) = (b / 2)\<^sup>2"
    unfolding q sum sc by (simp_all add: power_divide field_simps)
  show "2 * y = (a\<^sup>2 - b\<^sup>2) / 4 * (2 * c) * s"
    unfolding y_def by (simp add: algebra_simps)
  have s2: "s\<^sup>2 = 1 - c\<^sup>2" using sc by simp
  have q4: "4 * q = a\<^sup>2 - b\<^sup>2" by (simp add: q)
  have "4 * (- (z - x - q)) = (a\<^sup>2 - b\<^sup>2) * (c\<^sup>2 - s\<^sup>2) + 4 * q"
    unfolding x_def z_def by (simp add: algebra_simps)
  also have "\<dots> = (a\<^sup>2 - b\<^sup>2) * (c\<^sup>2 - s\<^sup>2) + (a\<^sup>2 - b\<^sup>2)"
    by (simp only: q4)
  also have "\<dots> = (a\<^sup>2 - b\<^sup>2) * (2 * c\<^sup>2)"
    unfolding s2 by (simp add: algebra_simps)
  finally have "4 * (- (z - x - q)) = (a\<^sup>2 - b\<^sup>2) * (2 * c\<^sup>2)" .
  moreover have "4 * u = v \<Longrightarrow> u = v / 4" for u v :: real
    by simp
  ultimately have "- (z - x - q) = (a\<^sup>2 - b\<^sup>2) * (2 * c\<^sup>2) / 4"
    by blast
  also have "\<dots> = (a\<^sup>2 - b\<^sup>2) / 4 * (2 * c) * c"
    by (simp add: power2_eq_square)
  finally show "- (z - x - q) = (a\<^sup>2 - b\<^sup>2) / 4 * (2 * c) * c" .
qed

text \<open>
  The moment path's angle off a vector along \<open>(cos t, sin t)\<close>: one angle, or the two
  angles \<open>pi\<close> and \<open>-pi\<close> where both arguments are zero.
\<close>

lemma arctan2_negated_of_axis:
  fixes d s c :: real
  assumes "0 \<le> d"
  shows "numpy_arctan2_negated (Fin (d * (2 * c) * s)) (Fin (- (d * (2 * c) * c))) =
         (if 0 < d \<and> c \<noteq> 0 then {Fin (arctan (s / c))} else {Fin pi, Fin (- pi)})"
proof (cases "0 < d \<and> c \<noteq> 0")
  case True
  then have pos: "0 < d * (2 * c) * c"
    by (simp add: zero_less_mult_iff mult_less_0_iff) (metis not_less_iff_gr_or_eq)
  then have n: "\<not> (d * (2 * c) * s = 0 \<and> 0 \<le> - (d * (2 * c) * c))"
    by simp
  have "numpy_arctan2_negated (Fin (d * (2 * c) * s)) (Fin (- (d * (2 * c) * c))) =
      {numpy_arctan2 (Fin (d * (2 * c) * s)) (Fin (- (- (d * (2 * c) * c))))}"
    by (simp only: numpy_arctan2_negated.simps n if_False)
  also have "\<dots> = {numpy_arctan2 (Fin (d * (2 * c) * s)) (Fin (d * (2 * c) * c))}"
    by (simp only: minus_minus)
  also have "\<dots> = {Fin (arctan (s / c))}"
    by (simp only: arctan2_of_axis [OF assms]) (simp add: True)
  finally show ?thesis using True by simp
next
  case False
  then have z: "d * (2 * c) * s = 0" "d * (2 * c) * c = 0"
    using assms by auto
  show ?thesis unfolding z using False by simp
qed

lemma gparams_moments_roundtrip_exact:
  assumes b0: "0 < b" and ab: "b \<le> a"
  shows "gparams_from_moments (moments_from_gparams (fin5 (x0, y0, a, b, theta))) =
         (if 0 < a\<^sup>2 - b\<^sup>2 \<and> cos theta \<noteq> 0
          then {fin5 (x0, y0, a, b, arctan (sin theta / cos theta))}
          else {fin5 (x0, y0, a, b, pi), fin5 (x0, y0, a, b, - pi)})"
proof -
  define s where "s = sin theta"
  define c where "c = cos theta"
  define m00 where "m00 = a * b * pi"
  define x where "x = (a\<^sup>2 * c\<^sup>2 + b\<^sup>2 * s\<^sup>2) * 0.25"
  define y where "y = - (b\<^sup>2 - a\<^sup>2) * s * c * 0.25"
  define z where "z = (a\<^sup>2 * s\<^sup>2 + b\<^sup>2 * c\<^sup>2) * 0.25"
  define q where "q = sqrt ((z - x)\<^sup>2 + 4 * y\<^sup>2)"
  have a0: "0 < a" using b0 ab by simp
  have m00: "m00 \<noteq> 0" using a0 b0 by (simp add: m00_def)
  have sc: "s\<^sup>2 + c\<^sup>2 = 1" by (simp add: s_def c_def)
  have d0: "0 \<le> (a\<^sup>2 - b\<^sup>2) / 4" using ab b0 by (simp add: power_mono)
  have dpos: "(0 < (a\<^sup>2 - b\<^sup>2) / 4) = (0 < a\<^sup>2 - b\<^sup>2)" by simp
  have mg: "moments_from_gparams (fin5 (x0, y0, a, b, theta)) =
      (Fin m00, Fin (x0 * m00), Fin (y0 * m00), Fin (x * m00), Fin (y * m00), Fin (z * m00))"
    unfolding fin5_def prod.case moments_from_gparams_fin
    by (simp add: m00_def x_def y_def z_def s_def c_def)
  note ax = axes_of_moments [OF sc ab less_imp_le [OF b0], folded x_def y_def z_def, folded q_def]
  have v: "z - x - q = - ((a\<^sup>2 - b\<^sup>2) / 4 * (2 * c) * c)"
    using ax(5) by linarith
  have sa: "Fin 2 * numpy_sqrt (Fin ((a / 2)\<^sup>2)) = Fin a" using a0 by simp
  have sb: "Fin 2 * numpy_sqrt (Fin ((b / 2)\<^sup>2)) = Fin b" using b0 by simp
  have c0: "x0 * m00 / m00 = x0" "y0 * m00 / m00 = y0" using m00 by simp_all
  have "gparams_from_moments
          (Fin m00, Fin (x0 * m00), Fin (y0 * m00), Fin (x * m00), Fin (y * m00), Fin (z * m00)) =
        (\<lambda>t. (Fin (x0 * m00 / m00), Fin (y0 * m00 / m00),
               Fin 2 * numpy_sqrt (Fin (0.5 * (z + x + q))),
               Fin 2 * numpy_sqrt (Fin (0.5 * (z + x - q))),
               t)) `
          numpy_arctan2_negated (Fin (2 * y)) (Fin (z - x - q))"
    unfolding q_def by (rule gparams_from_moments_fin [OF m00])
  also have "\<dots> = (\<lambda>t. (Fin x0, Fin y0, Fin a, Fin b, t)) `
      (if 0 < a\<^sup>2 - b\<^sup>2 \<and> c \<noteq> 0 then {Fin (arctan (s / c))} else {Fin pi, Fin (- pi)})"
    unfolding c0 ax(2) ax(3) ax(4) v sa sb arctan2_negated_of_axis [OF d0] dpos ..
  finally show ?thesis
    unfolding mg by (simp add: fin5_def s_def c_def)
qed

text \<open>
  Claim C3, as the code has it. For \<open>a \<ge> b > 0\<close> the moments of the parameters convert
  back to the same centre and the same semi-axes. The angle, read with the moment
  path's \<open>arctan2 (V[0,0]) (- V[1,0])\<close>, is congruent to \<open>theta\<close> modulo \<open>pi\<close> when
  \<open>a > b\<close> and \<open>cos theta \<noteq> 0\<close>; for a circle, \<open>a = b\<close>, it is \<open>pi\<close> or \<open>-pi\<close> whatever
  \<open>theta\<close> was.
\<close>

theorem gparams_moments_roundtrip:
  assumes "0 < b" and "b \<le> a"
  shows "gparams_from_moments (moments_from_gparams (fin5 (x0, y0, a, b, theta))) \<noteq> {}
         \<and> (\<forall>r \<in> gparams_from_moments (moments_from_gparams (fin5 (x0, y0, a, b, theta))).
               \<exists>t. r = fin5 (x0, y0, a, b, t)
                 \<and> (b < a \<and> cos theta \<noteq> 0 \<longrightarrow> cong_mod_pi t theta)
                 \<and> (a = b \<longrightarrow> t = pi \<or> t = - pi))"
proof -
  have "b < a \<Longrightarrow> 0 < a\<^sup>2 - b\<^sup>2"
    using assms by (simp add: power_strict_mono)
  then show ?thesis
    unfolding gparams_moments_roundtrip_exact [OF assms]
    by (auto simp add: cong_arctan_tan)
qed

theorem gparams_moments_roundtrip_witness:
  "\<exists>t. fin5 (450, 320, 300, 200, t)
          \<in> gparams_from_moments (moments_from_gparams (fin5 (450, 320, 300, 200, - 0.25)))
        \<and> cong_mod_pi t (- 0.25)"
proof -
  have "(0.25 :: real) < pi / 2" using pi_ge_two by simp
  then have "0 < cos (0.25 :: real)" by (intro cos_gt_zero) simp_all
  then have c: "cos (- 0.25 :: real) \<noteq> 0" by simp
  have lt: "(200 :: real) < 300" by simp
  from gparams_moments_roundtrip [of 200 300 450 320 "- 0.25"]
  have ne: "gparams_from_moments (moments_from_gparams (fin5 (450, 320, 300, 200, - 0.25))) \<noteq> {}"
    and all: "\<forall>r \<in> gparams_from_moments (moments_from_gparams (fin5 (450, 320, 300, 200, - 0.25))).
      \<exists>t. r = fin5 (450, 320, 300, 200, t)
        \<and> (200 < (300 :: real) \<and> cos (- 0.25 :: real) \<noteq> 0 \<longrightarrow> cong_mod_pi t (- 0.25))
        \<and> ((300 :: real) = 200 \<longrightarrow> t = pi \<or> t = - pi)"
    by simp_all
  from ne obtain r
    where r: "r \<in> gparams_from_moments (moments_from_gparams (fin5 (450, 320, 300, 200, - 0.25)))"
    by blast
  with all obtain t where "r = fin5 (450, 320, 300, 200, t)" and "cong_mod_pi t (- 0.25)"
    using c lt by blast
  with r show ?thesis by blast
qed

text \<open>
  The claim as stated fails on a circle: with \<open>a = b = 2\<close> and \<open>theta = 1\<close> the angle
  returned is \<open>pi\<close> or \<open>-pi\<close>, and neither is congruent to \<open>1\<close> modulo \<open>pi\<close>.
\<close>

theorem gparams_moments_roundtrip_counterexample:
  "gparams_from_moments (moments_from_gparams (fin5 (0, 0, 2, 2, 1))) =
     {fin5 (0, 0, 2, 2, pi), fin5 (0, 0, 2, 2, - pi)}
   \<and> \<not> cong_mod_pi pi 1 \<and> \<not> cong_mod_pi (- pi) 1"
proof -
  have "(1 :: real) < pi" using pi_ge_two by simp
  then have s1: "0 < sin (1 :: real)" by (intro sin_gt_zero) simp_all
  have "sin (pi - 1) = sin (1 :: real)" by (rule sin_pi_minus)
  then have p: "\<not> cong_mod_pi pi 1" using s1 by (simp add: cong_mod_pi_def)
  have "sin (- pi - 1) = - sin (pi + 1)" by (metis minus_diff_eq sin_minus diff_minus_eq_add add.commute minus_add_distrib uminus_add_conv_diff)
  also have "\<dots> = sin (1 :: real)" by (simp add: sin_add)
  finally have n: "\<not> cong_mod_pi (- pi) 1" using s1 by (simp add: cong_mod_pi_def)
  have "gparams_from_moments (moments_from_gparams (fin5 (0, 0, 2, 2, 1))) =
      {fin5 (0, 0, 2, 2, pi), fin5 (0, 0, 2, 2, - pi)}"
    using gparams_moments_roundtrip_exact [of 2 2 0 0 1] by simp
  then show ?thesis using p n by simp
qed

section \<open>The transform of a conic through a homography\<close>

lemma adjugate_times:
  "numpy_dot (adjugate3 H) H = scale3 (det3 H) id3"
  "numpy_dot H (adjugate3 H) = scale3 (det3 H) id3"
  by (cases H rule: prod_cases3; cases "fst H" rule: prod_cases3;
      cases "fst (snd H)" rule: prod_cases3; cases "snd (snd H)" rule: prod_cases3;
      simp add: id3_def algebra_simps)+

lemma dot_scale3:
  "numpy_dot (scale3 r M) N = scale3 r (numpy_dot M N)"
  "numpy_dot N (scale3 r M) = scale3 r (numpy_dot N M)"
  by (cases M rule: prod_cases3; cases "fst M" rule: prod_cases3;
      cases "fst (snd M)" rule: prod_cases3; cases "snd (snd M)" rule: prod_cases3;
      cases N rule: prod_cases3; cases "fst N" rule: prod_cases3;
      cases "fst (snd N)" rule: prod_cases3; cases "snd (snd N)" rule: prod_cases3;
      simp add: algebra_simps)+

lemma scale3_inverse: "d \<noteq> 0 \<Longrightarrow> scale3 (1 / d) (scale3 d id3) = id3"
  by (simp add: id3_def)

lemma inverse_by_adjugate:
  assumes "det3 H \<noteq> 0"
  shows "is_inverse3 (scale3 (1 / det3 H) (adjugate3 H)) H"
  unfolding is_inverse3_def dot_scale3 adjugate_times
  using assms by (simp add: scale3_inverse)

lemma mat3_exhaust:
  "(\<And>a b c d e f g h i. M = ((a, b, c), (d, e, f), (g, h, i)) \<Longrightarrow> P) \<Longrightarrow> P"
  by (metis prod_cases3)

lemma numpy_dot_fin:
  "numpy_dot (fin_mat3 M) (fin_mat3 N) = fin_mat3 (numpy_dot M N)"
  by (cases M rule: mat3_exhaust, cases N rule: mat3_exhaust) simp

lemma transpose3_fin: "transpose3 (fin_mat3 M) = fin_mat3 (transpose3 M)"
  by (cases M rule: mat3_exhaust) simp

lemma conic_matrix_fin:
  "((Fin A, Fin 0.5 * Fin B, Fin 0.5 * Fin D),
    (Fin 0.5 * Fin B, Fin C, Fin 0.5 * Fin E),
    (Fin 0.5 * Fin D, Fin 0.5 * Fin E, Fin F)) = fin_mat3 (conic_matrix (A, B, C, D, E, F))"
  by (simp add: conic_matrix_def)

lemma matrix_conic_fin:
  "(case fin_mat3 M of
      ((M00, M01, M02), (M10, M11, M12), (M20, M21, M22)) \<Rightarrow>
        (Inr (M00, M01 * Fin 2, M11, M02 * Fin 2, M12 * Fin 2, M22) :: py_error + conic))
   = Inr (fin6 (matrix_conic M))"
  by (cases M rule: mat3_exhaust) (simp add: fin6_def mult.commute)

lemma conic_transform_fin:
  assumes "det3 H \<noteq> 0"
  shows "conic_transform (fin6 c) H =
         Inr (fin6 (spec_conic_transform c (scale3 (1 / det3 H) (adjugate3 H))))"
proof (cases c)
  case (fields A B C D E F)
  have l: "fin6 c = (Fin A, Fin B, Fin C, Fin D, Fin E, Fin F)"
    by (simp add: fields fin6_def)
  have r: "spec_conic_transform c (scale3 (1 / det3 H) (adjugate3 H)) =
      matrix_conic (numpy_dot (transpose3 (scale3 (1 / det3 H) (adjugate3 H)))
        (numpy_dot (conic_matrix (A, B, C, D, E, F)) (scale3 (1 / det3 H) (adjugate3 H))))"
    by (simp add: fields spec_conic_transform_def)
  show ?thesis
    unfolding l r conic_transform_def prod.case numpy_linalg_inv_def Let_def conic_matrix_fin
    using assms
    by (simp only: if_False sum.case numpy_dot_fin transpose3_fin matrix_conic_fin)
qed

lemma conic_implicit_fin:
  "conic_implicit (fin6 c) (Fin x, Fin y) = Fin (conic_eval c x y)"
  by (cases c) (simp add: conic_implicit_def fin6_def conic_eval_def algebra_simps)

lemma conic_eval_hom: "conic_eval c x y = conic_hom c (x, y, 1)"
  by (cases c) (simp add: conic_eval_def conic_hom_def)

lemma conic_hom_scaled:
  assumes "w \<noteq> 0"
  shows "conic_eval c (u / w) (v / w) * w\<^sup>2 = conic_hom c (u, v, w)"
  using assms
  by (cases c) (simp add: conic_eval_def conic_hom_def power2_eq_square field_simps)

lemma conic_hom_transform:
  "conic_hom (spec_conic_transform c N) p = conic_hom c (mat_vec N p)"
  by (cases c, cases N rule: mat3_exhaust, cases p rule: prod_cases3)
     (simp add: spec_conic_transform_def conic_matrix_def conic_hom_def
        power2_eq_square algebra_simps)

lemma mat_vec_dot: "mat_vec N (mat_vec H p) = mat_vec (numpy_dot N H) p"
  by (cases N rule: mat3_exhaust, cases H rule: mat3_exhaust, cases p rule: prod_cases3)
     (simp add: algebra_simps)

lemma mat_vec_id3: "mat_vec id3 p = p"
  by (cases p rule: prod_cases3) (simp add: id3_def)

lemma perspective_transform_point_fin:
  "perspective_transform_point H (Fin x, Fin y) =
     (case mat_vec H (x, y, 1) of (u, v, w) \<Rightarrow> (Fin u / Fin w, Fin v / Fin w))"
  by (cases H rule: mat3_exhaust) (simp add: algebra_simps)

lemma fin_div_finite:
  assumes "Fin u / Fin w = Fin r"
  shows "w \<noteq> 0 \<and> r = u / w"
  using assms by (auto split: if_splits)

lemma image_on_transformed_conic:
  assumes inv: "is_inverse3 Hi H"
    and on: "conic_implicit (fin6 c) (Fin x, Fin y) = Fin 0"
    and img: "perspective_transform_point H (Fin x, Fin y) = (Fin x', Fin y')"
  shows "conic_implicit (fin6 (spec_conic_transform c Hi)) (Fin x', Fin y') = Fin 0"
proof -
  obtain u v w where p: "mat_vec H (x, y, 1) = (u, v, w)"
    by (cases "mat_vec H (x, y, 1)" rule: prod_cases3)
  have "Fin u / Fin w = Fin x'" and "Fin v / Fin w = Fin y'"
    using img unfolding perspective_transform_point_fin p by simp_all
  then have w: "w \<noteq> 0" and x': "x' = u / w" and y': "y' = v / w"
    using fin_div_finite by blast+
  have "conic_hom c (x, y, 1) = 0"
    using on by (simp add: conic_implicit_fin conic_eval_hom)
  moreover have "mat_vec Hi (u, v, w) = (x, y, 1)"
    using inv unfolding p [symmetric] mat_vec_dot by (simp add: is_inverse3_def mat_vec_id3)
  ultimately have "conic_hom (spec_conic_transform c Hi) (u, v, w) = 0"
    by (simp add: conic_hom_transform)
  then have "conic_eval (spec_conic_transform c Hi) (u / w) (v / w) * w\<^sup>2 = 0"
    by (simp only: conic_hom_scaled [OF w])
  then have "conic_eval (spec_conic_transform c Hi) x' y' = 0"
    using w by (simp add: x' y')
  then show ?thesis by (simp add: conic_implicit_fin)
qed

text \<open>
  Claim C8. For an invertible \<open>H\<close>, \<open>conic_transform\<close> returns the coefficients of
  \<open>H\<^sup>-\<^sup>T M H\<^sup>-\<^sup>1\<close>, off-diagonals doubled, where \<open>M\<close> is the symmetric matrix of the conic
  with off-diagonals halved; and wherever the implicit equation of the conic vanishes,
  the implicit equation of the transformed conic vanishes at the image of that point
  under \<open>H\<close>, the image \<^verbatim>\<open>_perspective_transform\<close> computes.
\<close>

theorem conic_transform_image:
  assumes "det3 H \<noteq> 0"
  shows "\<exists>Hi. is_inverse3 Hi H
           \<and> conic_transform (fin6 c) H = Inr (fin6 (spec_conic_transform c Hi))
           \<and> (\<forall>x y x' y'.
                 conic_implicit (fin6 c) (Fin x, Fin y) = Fin 0
                 \<and> perspective_transform_point H (Fin x, Fin y) = (Fin x', Fin y')
                 \<longrightarrow> conic_implicit (fin6 (spec_conic_transform c Hi)) (Fin x', Fin y') = Fin 0)"
proof (intro exI conjI allI impI)
  show "is_inverse3 (scale3 (1 / det3 H) (adjugate3 H)) H"
    using assms by (rule inverse_by_adjugate)
  show "conic_transform (fin6 c) H =
      Inr (fin6 (spec_conic_transform c (scale3 (1 / det3 H) (adjugate3 H))))"
    using assms by (rule conic_transform_fin)
  fix x y x' y'
  assume "conic_implicit (fin6 c) (Fin x, Fin y) = Fin 0
      \<and> perspective_transform_point H (Fin x, Fin y) = (Fin x', Fin y')"
  then show "conic_implicit
      (fin6 (spec_conic_transform c (scale3 (1 / det3 H) (adjugate3 H)))) (Fin x', Fin y') = Fin 0"
    using inverse_by_adjugate [OF assms] image_on_transformed_conic by blast
qed

text \<open>
  The unit circle through the homography with rows \<open>(1, 0, 0)\<close>, \<open>(0, 1, 0)\<close>,
  \<open>(1, 0, 1)\<close>: the point \<open>(1, 0)\<close> of the circle goes to \<open>(1/2, 0)\<close>, a point of the
  transformed conic.
\<close>

theorem conic_transform_image_witness:
  "\<exists>c'. conic_transform (fin6 (1, 0, 1, 0, 0, - 1)) ((1, 0, 0), (0, 1, 0), (1, 0, 1)) = Inr (fin6 c')
        \<and> conic_implicit (fin6 (1, 0, 1, 0, 0, - 1)) (Fin 1, Fin 0) = Fin 0
        \<and> perspective_transform_point ((1, 0, 0), (0, 1, 0), (1, 0, 1)) (Fin 1, Fin 0)
            = (Fin (1 / 2), Fin 0)
        \<and> conic_implicit (fin6 c') (Fin (1 / 2), Fin 0) = Fin 0"
proof -
  have d: "det3 ((1, 0, 0), (0, 1, 0), (1, 0, 1)) \<noteq> 0" by simp
  have on: "conic_implicit (fin6 (1, 0, 1, 0, 0, - 1)) (Fin 1, Fin 0) = Fin 0"
    by (simp add: conic_implicit_def fin6_def)
  have img: "perspective_transform_point ((1, 0, 0), (0, 1, 0), (1, 0, 1)) (Fin 1, Fin 0)
      = (Fin (1 / 2), Fin 0)"
    by simp
  from conic_transform_image [OF d, of "(1, 0, 1, 0, 0, - 1)"] on img
  show ?thesis by blast
qed

section \<open>Moments of a polygon and of the reversed polygon\<close>













end
